theory Spec2Isabelle
  imports Main
begin

section \<open>JavaScript primitives used by the editor\<close>

text \<open>
  The modal editor (component \<open>VimEditor\<close>) keeps its buffer as an array of strings and
  moves a cursor of two numbers over it. Strings are modelled as \<^typ>\<open>string\<close> (code units
  below 256), array and string indices as \<^typ>\<open>int\<close>, because the source subtracts from
  them without a guard. The functions of this section follow the ECMAScript definitions of
  the array and string methods the source calls.
\<close>

text \<open>A relative index as \<open>slice\<close> and \<open>splice\<close> read it: negative counts from the end.\<close>

definition rel_index :: "int \<Rightarrow> nat \<Rightarrow> nat" where
  "rel_index i n = (if i < 0 then nat (max (int n + i) 0) else min (nat i) n)"

text \<open>\<open>xs.slice(a, b)\<close> and \<open>xs.slice(a)\<close>, on arrays and on strings.\<close>

definition js_slice :: "int \<Rightarrow> int \<Rightarrow> 'a list \<Rightarrow> 'a list" where
  "js_slice a b xs =
     (let k = rel_index a (length xs); e = rel_index b (length xs)
      in take (e - k) (drop k xs))"

definition js_slice_from :: "int \<Rightarrow> 'a list \<Rightarrow> 'a list" where
  "js_slice_from a xs = drop (rel_index a (length xs)) xs"

text \<open>\<open>xs.splice(start, deleteCount, ...items)\<close>: the array afterwards.\<close>

definition js_splice :: "int \<Rightarrow> int \<Rightarrow> 'a list \<Rightarrow> 'a list \<Rightarrow> 'a list" where
  "js_splice start dc items xs =
     (let k = rel_index start (length xs);
          d = nat (min (max dc 0) (int (length xs) - int k))
      in take k xs @ items @ drop (k + d) xs)"

text \<open>\<open>xs[i]\<close>: \<open>None\<close> stands for \<open>undefined\<close>.\<close>

definition js_get :: "'a list \<Rightarrow> int \<Rightarrow> 'a option" where
  "js_get xs i = (if 0 \<le> i \<and> i < int (length xs) then Some (xs ! nat i) else None)"

text \<open>\<open>xs[i] || ''\<close>.\<close>

definition line_or_empty :: "string list \<Rightarrow> int \<Rightarrow> string" where
  "line_or_empty xs i = (case js_get xs i of None \<Rightarrow> [] | Some l \<Rightarrow> l)"

text \<open>\<open>xs[i]?.length || d\<close>: a missing line and an empty line both give \<open>d\<close>.\<close>

definition length_or :: "string list \<Rightarrow> int \<Rightarrow> int \<Rightarrow> int" where
  "length_or xs i d =
     (case js_get xs i of None \<Rightarrow> d | Some l \<Rightarrow> if l = [] then d else int (length l))"

text \<open>
  \<open>xs[i] = v\<close> on an array of strings. An index past the end extends the array; the
  elements skipped are read as \<open>''\<close> by the source (\<open>xs[j] || ''\<close>) and are stored as such.
  A negative index leaves the elements alone. The editor writes at the cursor line and at
  the line before it; in the states it reaches the cursor line is between \<open>0\<close> and the
  number of lines (lemma \<open>cursor_line_never_skips\<close> at the end), so that no element is
  skipped and no index is negative there.
\<close>

definition js_set :: "string list \<Rightarrow> int \<Rightarrow> string \<Rightarrow> string list" where
  "js_set xs i v =
     (if i < 0 then xs
      else if nat i < length xs then xs[nat i := v]
      else xs @ replicate (nat i - length xs) [] @ [v])"

text \<open>The first position at which \<open>pat\<close> occurs in \<open>s\<close>.\<close>

fun find_sub :: "'a list \<Rightarrow> 'a list \<Rightarrow> nat option" where
  "find_sub pat [] = (if pat = [] then Some 0 else None)"
| "find_sub pat (x # xs) =
     (if take (length pat) (x # xs) = pat then Some 0
      else map_option Suc (find_sub pat xs))"

text \<open>\<open>s.indexOf(pat, from)\<close>, with \<open>-1\<close> for no occurrence.\<close>

definition js_indexOf :: "string \<Rightarrow> string \<Rightarrow> int \<Rightarrow> int" where
  "js_indexOf s pat from =
     (let k = min (nat from) (length s)
      in case find_sub pat (drop k s) of None \<Rightarrow> - 1 | Some j \<Rightarrow> int (k + j))"

text \<open>The last position at which \<open>pat\<close> occurs in \<open>s\<close>, and \<open>s.lastIndexOf(pat)\<close>.\<close>

fun find_last :: "'a list \<Rightarrow> 'a list \<Rightarrow> nat option" where
  "find_last pat [] = (if pat = [] then Some 0 else None)"
| "find_last pat (x # xs) =
     (case find_last pat xs of
        Some j \<Rightarrow> Some (Suc j)
      | None \<Rightarrow> if take (length pat) (x # xs) = pat then Some 0 else None)"

definition js_lastIndexOf :: "string \<Rightarrow> string \<Rightarrow> int" where
  "js_lastIndexOf s pat = (case find_last pat s of None \<Rightarrow> - 1 | Some j \<Rightarrow> int j)"

text \<open>
  \<open>s.split(sep)\<close> for a string separator. The scan keeps the piece read so far, reversed,
  in \<open>acc\<close>; an empty separator cuts between all code units.
\<close>

fun split_at :: "string \<Rightarrow> string \<Rightarrow> string \<Rightarrow> string list" where
  "split_at sep acc [] = [rev acc]"
| "split_at sep acc (x # xs) =
     (if take (length sep) (x # xs) = sep
      then rev acc # split_at sep [] (drop (length sep - 1) xs)
      else split_at sep (x # acc) xs)"

definition js_split :: "string \<Rightarrow> string \<Rightarrow> string list" where
  "js_split sep s = (if sep = [] then map (\<lambda>c. [c]) s else split_at sep [] s)"

text \<open>\<open>xs.join(sep)\<close>.\<close>

fun js_join :: "string \<Rightarrow> string list \<Rightarrow> string" where
  "js_join sep [] = []"
| "js_join sep [x] = x"
| "js_join sep (x # y # ys) = x @ sep @ js_join sep (y # ys)"

text \<open>
  \<open>s.replace(old, new)\<close> with a string pattern replaces the first occurrence only, and
  expands in \<open>new\<close> the patterns \<open>$$\<close>, \<open>$&\<close>, \<open>$`\<close> and \<open>$'\<close> (ECMAScript GetSubstitution;
  with a string pattern there are no captures, so \<open>$1\<close> and \<open>$<\<close> stay as they are).
\<close>

fun get_substitution :: "string \<Rightarrow> string \<Rightarrow> string \<Rightarrow> string \<Rightarrow> string" where
  "get_substitution matched pre post [] = []"
| "get_substitution matched pre post [c] = [c]"
| "get_substitution matched pre post (c # d # t) =
     (if c = CHR ''$'' \<and> d = CHR ''$'' then CHR ''$'' # get_substitution matched pre post t
      else if c = CHR ''$'' \<and> d = CHR ''&'' then matched @ get_substitution matched pre post t
      else if c = CHR ''$'' \<and> d = CHR 0x60 then pre @ get_substitution matched pre post t
      else if c = CHR ''$'' \<and> d = CHR 0x27 then post @ get_substitution matched pre post t
      else c # get_substitution matched pre post (d # t))"

definition js_replace :: "string \<Rightarrow> string \<Rightarrow> string \<Rightarrow> string" where
  "js_replace s old new =
     (case find_sub old s of
        None \<Rightarrow> s
      | Some k \<Rightarrow>
          take k s
          @ get_substitution old (take k s) (drop (k + length old) s) new
          @ drop (k + length old) s)"

text \<open>\<open>s.startsWith(p)\<close> and \<open>s.includes(c)\<close> for a one-character \<open>c\<close>.\<close>

definition startsWith :: "string \<Rightarrow> string \<Rightarrow> bool" where
  "startsWith s p = (take (length p) s = p)"

definition js_includes :: "string \<Rightarrow> char \<Rightarrow> bool" where
  "js_includes s c = List.member s c"

text \<open>
  White space as \<open>\s\<close>, \<open>trim\<close> and \<open>parseInt\<close> see it, among the code units below 256:
  tab, line feed, vertical tab, form feed, carriage return, space, no-break space.
\<close>

definition is_space :: "char \<Rightarrow> bool" where
  "is_space c = List.member [9, 10, 11, 12, 13, 32, 160 :: nat] (of_char c)"

definition trimStart :: "string \<Rightarrow> string" where
  "trimStart s = dropWhile is_space s"

definition trim :: "string \<Rightarrow> string" where
  "trim s = rev (dropWhile is_space (rev (dropWhile is_space s)))"

text \<open>A number inside a template literal: its decimal digits.\<close>

definition digit_char :: "nat \<Rightarrow> char" where
  "digit_char d = ''0123456789'' ! d"

function show_nat :: "nat \<Rightarrow> string" where
  "show_nat n = (if n < 10 then [digit_char n] else show_nat (n div 10) @ [digit_char (n mod 10)])"
  by pat_completeness auto
termination
  by (relation "measure id") auto

declare show_nat.simps [simp del]

definition show_int :: "int \<Rightarrow> string" where
  "show_int i = (if i < 0 then CHR ''-'' # show_nat (nat (- i)) else show_nat (nat i))"

text \<open>
  \<open>parseInt(s)\<close> without a radix: leading white space, a sign, a \<open>0x\<close> prefix for base 16,
  then the longest run of digits; \<open>None\<close> stands for \<open>NaN\<close>. The value is exact (the source's
  doubles round it beyond \<open>2^53\<close>).
\<close>

definition digit_val :: "char \<Rightarrow> nat option" where
  "digit_val c =
     (let n = (of_char c :: nat)
      in if 48 \<le> n \<and> n \<le> 57 then Some (n - 48)
         else if 97 \<le> n \<and> n \<le> 122 then Some (n - 87)
         else if 65 \<le> n \<and> n \<le> 90 then Some (n - 55)
         else None)"

definition is_digit :: "nat \<Rightarrow> char \<Rightarrow> bool" where
  "is_digit radix c = (case digit_val c of None \<Rightarrow> False | Some d \<Rightarrow> d < radix)"

definition digits_value :: "nat \<Rightarrow> string \<Rightarrow> int" where
  "digits_value radix ds =
     foldl (\<lambda>a c. a * int radix + int (case digit_val c of None \<Rightarrow> 0 | Some d \<Rightarrow> d)) 0 ds"

definition parseInt :: "string \<Rightarrow> int option" where
  "parseInt s =
     (let t = dropWhile is_space s;
          neg = (take 1 t = ''-'');
          t1 = (if take 1 t = ''-'' \<or> take 1 t = ''+'' then drop 1 t else t);
          hex = (take 2 t1 = ''0x'' \<or> take 2 t1 = ''0X'');
          radix = (if hex then 16 else 10);
          t2 = (if hex then drop 2 t1 else t1);
          ds = takeWhile (is_digit radix) t2
      in if ds = [] then None
         else Some ((if neg then - 1 else 1) * digits_value radix ds))"


section \<open>The editor state\<close>

datatype VimMode = Normal | Insert | Visual | Command | Replace

record CursorPosition =
  line :: int
  col :: int

text \<open>
  The collaborators \<open>onSave\<close> and \<open>onExit\<close> belong to the surrounding shell; the model
  records each call. \<open>OnExitAfter 100\<close> is \<open>setTimeout(onExit, 100)\<close>.
\<close>

datatype call = OnSave string | OnExit | OnExitAfter nat

text \<open>
  One field for each \<open>useState\<close> of the component, the \<open>filename\<close> property, and the calls
  made so far (oldest first). \<open>statusMessage\<close> is what \<open>showStatus\<close> last set; the timer
  that blanks it later is not part of the model.
\<close>

record VimState =
  filename :: string
  lines :: "string list"
  mode :: VimMode
  cursor :: CursorPosition
  commandBuffer :: string
  statusMessage :: string
  modified :: bool
  visualStart :: "CursorPosition option"
  yankBuffer :: "string list"
  searchPattern :: string
  lastCommand :: string
  numberBuffer :: string
  calls :: "call list"

text \<open>The state on mount: \<open>initialContent || ''\<close> is split at line feeds.\<close>

definition initialState :: "string \<Rightarrow> string \<Rightarrow> VimState" where
  "initialState fname initialContent =
     \<lparr> filename = fname,
       lines = (if length (js_split [CHR 0x0A] initialContent) > 0
                then js_split [CHR 0x0A] initialContent else [[]]),
       mode = Normal,
       cursor = \<lparr> line = 0, col = 0 \<rparr>,
       commandBuffer = [],
       statusMessage = [],
       modified = False,
       visualStart = None,
       yankBuffer = [],
       searchPattern = [],
       lastCommand = [],
       numberBuffer = [],
       calls = [] \<rparr>"

definition showStatus :: "string \<Rightarrow> VimState \<Rightarrow> VimState" where
  "showStatus message s = s\<lparr>statusMessage := message\<rparr>"

definition getContent :: "VimState \<Rightarrow> string" where
  "getContent r = js_join [CHR 0x0A] (lines r)"

text \<open>
  Every handler below takes two states: \<open>r\<close>, the state of the render whose closures the
  handler runs in (what the source reads as \<open>lines\<close>, \<open>cursor\<close>, \<open>mode\<close>, ...), and \<open>s\<close>, the
  state with the updates queued so far in the same event (what an updater
  \<open>setX(prev => ...)\<close> receives as \<open>prev\<close>). A handler returns \<open>s\<close> with its own updates
  applied. For a single call \<open>r\<close> and \<open>s\<close> are the same state.
\<close>

subsection \<open>Cursor clamping and motions\<close>

definition clampCursor :: "VimMode \<Rightarrow> CursorPosition \<Rightarrow> string list \<Rightarrow> CursorPosition" where
  "clampCursor m pos lns =
     (let ln = max 0 (min (line pos) (int (length lns) - 1));
          maxCol = max 0 (length_or lns ln 1 - 1);
          c = (if m = Insert
               then max 0 (min (col pos) (length_or lns ln 0))
               else max 0 (min (col pos) maxCol))
      in \<lparr> line = ln, col = c \<rparr>)"

definition moveLeft :: "VimState \<Rightarrow> VimState \<Rightarrow> VimState" where
  "moveLeft r s =
     s\<lparr>cursor := clampCursor (mode r) ((cursor s)\<lparr>col := col (cursor s) - 1\<rparr>) (lines r)\<rparr>"

definition moveRight :: "VimState \<Rightarrow> VimState \<Rightarrow> VimState" where
  "moveRight r s =
     s\<lparr>cursor := clampCursor (mode r) ((cursor s)\<lparr>col := col (cursor s) + 1\<rparr>) (lines r)\<rparr>"

definition moveUp :: "VimState \<Rightarrow> VimState \<Rightarrow> VimState" where
  "moveUp r s =
     s\<lparr>cursor := clampCursor (mode r) ((cursor s)\<lparr>line := line (cursor s) - 1\<rparr>) (lines r)\<rparr>"

definition moveDown :: "VimState \<Rightarrow> VimState \<Rightarrow> VimState" where
  "moveDown r s =
     s\<lparr>cursor := clampCursor (mode r) ((cursor s)\<lparr>line := line (cursor s) + 1\<rparr>) (lines r)\<rparr>"

definition moveToLineStart :: "VimState \<Rightarrow> VimState \<Rightarrow> VimState" where
  "moveToLineStart r s = s\<lparr>cursor := (cursor s)\<lparr>col := 0\<rparr>\<rparr>"

definition moveToLineEnd :: "VimState \<Rightarrow> VimState \<Rightarrow> VimState" where
  "moveToLineEnd r s =
     s\<lparr>cursor := (cursor s)\<lparr>col := max 0 (length_or (lines r) (line (cursor s)) 0 - 1)\<rparr>\<rparr>"

text \<open>\<open>/^\s*/\<close> always matches; the match is the leading white space.\<close>

definition moveToFirstNonWhitespace :: "VimState \<Rightarrow> VimState \<Rightarrow> VimState" where
  "moveToFirstNonWhitespace r s =
     (let ln = line_or_empty (lines r) (line (cursor s));
          c = int (length (takeWhile is_space ln))
      in s\<lparr>cursor := (cursor s)\<lparr>col := min c (int (length ln) - 1)\<rparr>\<rparr>)"

text \<open>
  The length of the match of \<open>/^\s*\S+\s*/\<close>: white space, at least one other character,
  white space; \<open>None\<close> when there is no character that is not white space.
\<close>

definition match_word_forward :: "string \<Rightarrow> nat option" where
  "match_word_forward rest =
     (let a = takeWhile is_space rest;
          b = takeWhile (\<lambda>c. \<not> is_space c) (dropWhile is_space rest);
          c = takeWhile is_space (dropWhile (\<lambda>c. \<not> is_space c) (dropWhile is_space rest))
      in if b = [] then None else Some (length a + length b + length c))"

definition moveWordForward :: "VimState \<Rightarrow> VimState \<Rightarrow> VimState" where
  "moveWordForward r s =
     (let prev = cursor s;
          ln = line_or_empty (lines r) (line prev);
          rest = js_slice_from (col prev) ln;
          newCol = (case match_word_forward rest of
                      None \<Rightarrow> None
                    | Some n \<Rightarrow> if col prev + int n < int (length ln)
                               then Some (col prev + int n) else None)
      in case newCol of
           Some c \<Rightarrow> s\<lparr>cursor := prev\<lparr>col := c\<rparr>\<rparr>
         | None \<Rightarrow>
             if line prev < int (length (lines r)) - 1
             then s\<lparr>cursor := \<lparr> line = line prev + 1, col = 0 \<rparr>\<rparr>
             else s)"

text \<open>
  The length of the match of \<open>/\S+\s*$/\<close>: the last run of characters that are not white
  space, with the white space after it.
\<close>

definition match_word_backward :: "string \<Rightarrow> nat option" where
  "match_word_backward bef =
     (let a = takeWhile is_space (rev bef);
          b = takeWhile (\<lambda>c. \<not> is_space c) (dropWhile is_space (rev bef))
      in if b = [] then None else Some (length a + length b))"

definition moveWordBackward :: "VimState \<Rightarrow> VimState \<Rightarrow> VimState" where
  "moveWordBackward r s =
     (let prev = cursor s
      in if col prev = 0
         then (if line prev > 0
               then s\<lparr>cursor := \<lparr> line = line prev - 1,
                                  col = max 0 (length_or (lines r) (line prev - 1) 1 - 1) \<rparr>\<rparr>
               else s)
         else (case match_word_backward (js_slice 0 (col prev) (line_or_empty (lines r) (line prev))) of
                 Some n \<Rightarrow> s\<lparr>cursor := prev\<lparr>col := col prev - int n\<rparr>\<rparr>
               | None \<Rightarrow> s\<lparr>cursor := prev\<lparr>col := 0\<rparr>\<rparr>))"

definition moveToTop :: "VimState \<Rightarrow> VimState \<Rightarrow> VimState" where
  "moveToTop r s = s\<lparr>cursor := \<lparr> line = 0, col = 0 \<rparr>\<rparr>"

definition moveToBottom :: "VimState \<Rightarrow> VimState \<Rightarrow> VimState" where
  "moveToBottom r s = s\<lparr>cursor := \<lparr> line = int (length (lines r)) - 1, col = 0 \<rparr>\<rparr>"


subsection \<open>Editing commands\<close>

definition insertChar :: "string \<Rightarrow> VimState \<Rightarrow> VimState \<Rightarrow> VimState" where
  "insertChar ch r s =
     (let cl = line (cursor r); cc = col (cursor r);
          ln = line_or_empty (lines s) cl
      in s\<lparr>lines := js_set (lines s) cl (js_slice 0 cc ln @ ch @ js_slice_from cc ln),
           cursor := (cursor s)\<lparr>col := col (cursor s) + 1\<rparr>,
           modified := True\<rparr>)"

definition insertNewLine :: "VimState \<Rightarrow> VimState \<Rightarrow> VimState" where
  "insertNewLine r s =
     (let cl = line (cursor r); cc = col (cursor r);
          ln = line_or_empty (lines s) cl
      in s\<lparr>lines := js_splice (cl + 1) 0 [js_slice_from cc ln]
                       (js_set (lines s) cl (js_slice 0 cc ln)),
           cursor := \<lparr> line = line (cursor s) + 1, col = 0 \<rparr>,
           modified := True\<rparr>)"

definition deleteChar :: "VimState \<Rightarrow> VimState \<Rightarrow> VimState" where
  "deleteChar r s =
     (let cl = line (cursor r); cc = col (cursor r);
          ln = line_or_empty (lines s) cl
      in s\<lparr>lines :=
             (if cc < int (length ln)
              then js_set (lines s) cl (js_slice 0 cc ln @ js_slice_from (cc + 1) ln)
              else if cl < int (length (lines s)) - 1
              then js_splice (cl + 1) 1 []
                     (js_set (lines s) cl (ln @ line_or_empty (lines s) (cl + 1)))
              else lines s),
           modified := True\<rparr>)"

definition backspace :: "VimState \<Rightarrow> VimState \<Rightarrow> VimState" where
  "backspace r s =
     (let cl = line (cursor r); cc = col (cursor r)
      in if cc > 0
         then s\<lparr>lines := js_set (lines s) cl
                            (js_slice 0 (cc - 1) (line_or_empty (lines s) cl)
                             @ js_slice_from cc (line_or_empty (lines s) cl)),
                cursor := (cursor s)\<lparr>col := col (cursor s) - 1\<rparr>,
                modified := True\<rparr>
         else if cl > 0
         then s\<lparr>lines := js_splice cl 1 []
                            (js_set (lines s) (cl - 1)
                               (line_or_empty (lines s) (cl - 1) @ line_or_empty (lines s) cl)),
                cursor := \<lparr> line = cl - 1, col = length_or (lines r) (cl - 1) 0 \<rparr>,
                modified := True\<rparr>
         else s)"

text \<open>\<open>`${n} line${n > 1 ? 's' : ''} `\<close>, the start of three status messages.\<close>

definition count_lines_text :: "int \<Rightarrow> string" where
  "count_lines_text n = show_int n @ '' line'' @ (if n > 1 then ''s'' else [])"

definition deleteLine :: "int \<Rightarrow> VimState \<Rightarrow> VimState \<Rightarrow> VimState" where
  "deleteLine count r s =
     (let cl = line (cursor r);
          newLines = js_splice cl count [] (lines s)
      in showStatus (count_lines_text count @ '' deleted'')
           (s\<lparr>yankBuffer := js_slice cl (cl + count) (lines r),
              lines := (if length newLines = 0 then newLines @ [[]] else newLines),
              cursor := clampCursor (mode r) (cursor s)
                          (if int (length (lines r)) > count then lines r else [[]]),
              modified := True\<rparr>))"

definition yankLine :: "int \<Rightarrow> VimState \<Rightarrow> VimState \<Rightarrow> VimState" where
  "yankLine count r s =
     (let cl = line (cursor r)
      in showStatus (count_lines_text count @ '' yanked'')
           (s\<lparr>yankBuffer := js_slice cl (cl + count) (lines r)\<rparr>))"

definition pasteBefore :: "VimState \<Rightarrow> VimState \<Rightarrow> VimState" where
  "pasteBefore r s =
     (if length (yankBuffer r) = 0 then s
      else showStatus (count_lines_text (int (length (yankBuffer r))) @ '' pasted'')
             (s\<lparr>lines := js_splice (line (cursor r)) 0 (yankBuffer r) (lines s),
                modified := True\<rparr>))"

definition pasteAfter :: "VimState \<Rightarrow> VimState \<Rightarrow> VimState" where
  "pasteAfter r s =
     (if length (yankBuffer r) = 0 then s
      else showStatus (count_lines_text (int (length (yankBuffer r))) @ '' pasted'')
             (s\<lparr>lines := js_splice (line (cursor r) + 1) 0 (yankBuffer r) (lines s),
                cursor := \<lparr> line = line (cursor s) + 1, col = 0 \<rparr>,
                modified := True\<rparr>))"

definition openLineBelow :: "VimState \<Rightarrow> VimState \<Rightarrow> VimState" where
  "openLineBelow r s =
     s\<lparr>lines := js_splice (line (cursor r) + 1) 0 [[]] (lines s),
       cursor := \<lparr> line = line (cursor s) + 1, col = 0 \<rparr>,
       mode := Insert,
       modified := True\<rparr>"

definition openLineAbove :: "VimState \<Rightarrow> VimState \<Rightarrow> VimState" where
  "openLineAbove r s =
     s\<lparr>lines := js_splice (line (cursor r)) 0 [[]] (lines s),
       cursor := (cursor s)\<lparr>col := 0\<rparr>,
       mode := Insert,
       modified := True\<rparr>"

definition joinLines :: "VimState \<Rightarrow> VimState \<Rightarrow> VimState" where
  "joinLines r s =
     (let cl = line (cursor r)
      in if cl \<ge> int (length (lines r)) - 1 then s
         else
           (let currentLine = line_or_empty (lines s) cl;
                nextLine = trimStart (line_or_empty (lines s) (cl + 1))
            in s\<lparr>lines := js_splice (cl + 1) 1 []
                              (js_set (lines s) cl
                                 (currentLine @ (if length currentLine > 0 then '' '' else [])
                                  @ nextLine)),
                 modified := True\<rparr>))"

definition undoLastChange :: "VimState \<Rightarrow> VimState" where
  "undoLastChange s = showStatus ''Undo not yet implemented'' s"

definition redoLastChange :: "VimState \<Rightarrow> VimState" where
  "redoLastChange s = showStatus ''Redo not yet implemented'' s"


subsection \<open>The command line\<close>

text \<open>
  The forward search loop of \<open>/pattern\<close> and \<open>n\<close>: \<open>ls\<close> are the lines from index \<open>i\<close>
  on, \<open>from\<close> the column the first of them is searched from. The loop starts at the
  cursor line; were that negative, the first read \<open>lines[i].indexOf\<close> would throw, and
  the callers below end there with the updates queued before.
\<close>

fun scanForward :: "string \<Rightarrow> string list \<Rightarrow> int \<Rightarrow> int \<Rightarrow> CursorPosition option" where
  "scanForward pat [] i from = None"
| "scanForward pat (l # ls) i from =
     (if js_indexOf l pat from \<noteq> - 1
      then Some \<lparr> line = i, col = js_indexOf l pat from \<rparr>
      else scanForward pat ls (i + 1) 0)"

definition searchForward :: "VimState \<Rightarrow> string \<Rightarrow> CursorPosition option" where
  "searchForward r pat =
     scanForward pat (drop (nat (line (cursor r))) (lines r))
       (line (cursor r)) (col (cursor r) + 1)"

text \<open>The substitution of \<open>s/old/new/flags\<close> on one line.\<close>

definition substitute :: "string \<Rightarrow> string \<Rightarrow> string \<Rightarrow> string \<Rightarrow> string" where
  "substitute flags oldText newText ln =
     (if js_includes flags (CHR ''g'')
      then js_join newText (js_split oldText ln)
      else js_replace ln oldText newText)"

text \<open>\<open>parts[3] || ''\<close>.\<close>

definition flags_of :: "string list \<Rightarrow> string" where
  "flags_of parts = (case js_get parts 3 of None \<Rightarrow> [] | Some f \<Rightarrow> f)"

text \<open>
  In the branch \<open>%s/\<close> the source counts the changed lines in a variable that the updater
  given to \<open>setLines\<close> increments, and formats the message right after the call of
  \<open>setLines\<close>. React runs an updater either at once, inside \<open>setLines\<close>, or when it next
  renders the component, after the handler has returned; which of the two is React's choice
  and not written in the source. The argument \<open>eager\<close> says which: with \<open>eager\<close> the variable
  holds the number of changed lines when the message is formatted, without it the
  variable still holds \<open>0\<close>.
\<close>

definition changed_count :: "bool \<Rightarrow> string \<Rightarrow> string \<Rightarrow> string \<Rightarrow> string list \<Rightarrow> nat" where
  "changed_count eager flags oldText newText prev =
     (if eager then length (filter (\<lambda>l. substitute flags oldText newText l \<noteq> l) prev) else 0)"

definition executeVimCommand :: "bool \<Rightarrow> VimState \<Rightarrow> VimState \<Rightarrow> string \<Rightarrow> VimState" where
  "executeVimCommand eager r s cmd =
     (let trimmedCmd = trim cmd; cl = line (cursor r)
      in case parseInt trimmedCmd of
           Some lineNum \<Rightarrow>
             s\<lparr>cursor := \<lparr> line = max 0 (min (lineNum - 1) (int (length (lines r)) - 1)),
                             col = 0 \<rparr>,
               mode := Normal\<rparr>
         | None \<Rightarrow>
             if trimmedCmd = ''w'' then
               showStatus ([CHR 0x22] @ filename r @ [CHR 0x22] @ '' ''
                           @ show_nat (length (lines r)) @ ''L, ''
                           @ show_nat (length (getContent r)) @ ''C written'')
                 (s\<lparr>calls := calls s @ [OnSave (getContent r)],
                    modified := False, mode := Normal\<rparr>)
             else if trimmedCmd = ''q'' then
               (if modified r
                then showStatus ''E37: No write since last change (add ! to override)''
                       (s\<lparr>mode := Normal\<rparr>)
                else s\<lparr>calls := calls s @ [OnExit]\<rparr>)
             else if trimmedCmd = ''q!'' then
               s\<lparr>calls := calls s @ [OnExit]\<rparr>
             else if trimmedCmd = ''wq'' \<or> trimmedCmd = ''x'' then
               showStatus ([CHR 0x22] @ filename r @ [CHR 0x22] @ '' ''
                           @ show_nat (length (lines r)) @ ''L written'')
                 (s\<lparr>calls := calls s @ [OnSave (getContent r), OnExitAfter 100]\<rparr>)
             else if trimmedCmd = ''wq!'' then
               s\<lparr>calls := calls s @ [OnSave (getContent r), OnExit]\<rparr>
             else if startsWith trimmedCmd ''/'' then
               (let pattern = js_slice_from 1 trimmedCmd;
                    s1 = s\<lparr>searchPattern := pattern\<rparr>
                in if cl < 0 then s1
                   else (case searchForward r pattern of
                           Some pos \<Rightarrow>
                             showStatus (''/'' @ pattern) (s1\<lparr>cursor := pos, mode := Normal\<rparr>)
                         | None \<Rightarrow>
                             showStatus (''Pattern not found: '' @ pattern)
                               (s1\<lparr>mode := Normal\<rparr>)))
             else if startsWith trimmedCmd ''?'' then
               showStatus ''Backward search not yet implemented''
                 (s\<lparr>searchPattern := js_slice_from 1 trimmedCmd, mode := Normal\<rparr>)
             else if startsWith trimmedCmd ''s/'' then
               (let parts = js_split ''/'' trimmedCmd
                in if length parts \<ge> 3
                   then
                     (let oldText = parts ! 1; newText = parts ! 2;
                          currentLine = line_or_empty (lines r) cl;
                          newLine = substitute (flags_of parts) oldText newText currentLine
                      in if newLine \<noteq> currentLine
                         then showStatus ''1 substitution''
                                (s\<lparr>lines := js_set (lines s) cl newLine,
                                   modified := True, mode := Normal\<rparr>)
                         else showStatus ''Pattern not found'' (s\<lparr>mode := Normal\<rparr>))
                   else s\<lparr>mode := Normal\<rparr>)
             else if startsWith trimmedCmd ''%s/'' then
               (let parts = js_split ''/'' (js_slice_from 1 trimmedCmd)
                in if length parts \<ge> 3
                   then
                     (let oldText = parts ! 1; newText = parts ! 2;
                          n = changed_count eager (flags_of parts) oldText newText (lines s)
                      in showStatus (show_nat n @ '' substitution'' @ (if n \<noteq> 1 then ''s'' else []))
                           (s\<lparr>lines := map (substitute (flags_of parts) oldText newText) (lines s),
                              modified := True, mode := Normal\<rparr>))
                   else s\<lparr>mode := Normal\<rparr>)
             else if trimmedCmd = ''set nu'' \<or> trimmedCmd = ''set number'' then
               showStatus ''Line numbers are always shown'' (s\<lparr>mode := Normal\<rparr>)
             else if trimmedCmd = ''set nonu'' \<or> trimmedCmd = ''set nonumber'' then
               showStatus ''Line numbers cannot be hidden in this version'' (s\<lparr>mode := Normal\<rparr>)
             else
               showStatus (''E492: Not an editor command: '' @ trimmedCmd) (s\<lparr>mode := Normal\<rparr>))"

definition handleCommandSubmit :: "bool \<Rightarrow> VimState \<Rightarrow> VimState \<Rightarrow> VimState" where
  "handleCommandSubmit eager r s =
     (executeVimCommand eager r s (commandBuffer r))\<lparr>commandBuffer := []\<rparr>"


subsection \<open>Keys in Normal mode\<close>

text \<open>\<open>parseInt(numberBuffer) || 1\<close>: \<open>NaN\<close> and \<open>0\<close> give \<open>1\<close>.\<close>

definition count_of :: "string \<Rightarrow> int" where
  "count_of nb = (case parseInt nb of None \<Rightarrow> 1 | Some n \<Rightarrow> if n = 0 then 1 else n)"

text \<open>\<open>/^[0-9]$/.test(key)\<close>.\<close>

definition is_digit_key :: "string \<Rightarrow> bool" where
  "is_digit_key key = (length key = 1 \<and> list_all (is_digit 10) key)"

definition resetNumber :: "VimState \<Rightarrow> VimState" where
  "resetNumber s = s\<lparr>numberBuffer := []\<rparr>"

text \<open>\<open>for (let i = 0; i < count; i++) f()\<close>.\<close>

definition repeat :: "int \<Rightarrow> (VimState \<Rightarrow> VimState) \<Rightarrow> VimState \<Rightarrow> VimState" where
  "repeat count f s = (f ^^ nat count) s"

text \<open>
  The backward search loop of \<open>N\<close>, from line \<open>i\<close> down to line \<open>0\<close>; \<open>f j\<close> is the text
  searched on line \<open>j\<close>.
\<close>

fun scanBackward :: "string \<Rightarrow> (nat \<Rightarrow> string) \<Rightarrow> nat \<Rightarrow> CursorPosition option" where
  "scanBackward pat f 0 =
     (if js_lastIndexOf (f 0) pat \<noteq> - 1
      then Some \<lparr> line = 0, col = js_lastIndexOf (f 0) pat \<rparr> else None)"
| "scanBackward pat f (Suc i) =
     (if js_lastIndexOf (f (Suc i)) pat \<noteq> - 1
      then Some \<lparr> line = int (Suc i), col = js_lastIndexOf (f (Suc i)) pat \<rparr>
      else scanBackward pat f i)"

definition searchBackward :: "VimState \<Rightarrow> string \<Rightarrow> CursorPosition option" where
  "searchBackward r pat =
     scanBackward pat
       (\<lambda>j. if int j = line (cursor r)
            then js_slice 0 (col (cursor r)) (lines r ! j) else lines r ! j)
       (nat (line (cursor r)))"

text \<open>
  \<open>cc\<close> and \<open>S\<close> store \<open>[lines[cursor.line]]\<close> in the register. When the cursor line is past
  the end of the buffer that element is \<open>undefined\<close>; the model stores the empty line for
  it, which is what every read \<open>x || ''\<close> of the source makes of it. A buffer into which
  such an element has been pasted cannot be rendered (the render calls \<open>line.split\<close> on
  it), and the component ends there; the model goes on with the empty line, so that it
  has all the states of the component, and some more.
\<close>

definition changeWholeLine :: "VimState \<Rightarrow> VimState \<Rightarrow> VimState" where
  "changeWholeLine r s =
     s\<lparr>yankBuffer := [line_or_empty (lines r) (line (cursor r))],
       lines := js_set (lines s) (line (cursor r)) [],
       cursor := (cursor s)\<lparr>col := 0\<rparr>,
       mode := Insert,
       modified := True\<rparr>"

text \<open>\<open>D\<close> and \<open>C\<close> cut the cursor line at the cursor column.\<close>

definition cutToLineEnd :: "VimState \<Rightarrow> VimState \<Rightarrow> VimState" where
  "cutToLineEnd r s =
     s\<lparr>lines := js_set (lines s) (line (cursor r))
                   (js_slice 0 (col (cursor r)) (line_or_empty (lines s) (line (cursor r)))),
       modified := True\<rparr>"

definition replaceChar :: "string \<Rightarrow> VimState \<Rightarrow> VimState \<Rightarrow> VimState" where
  "replaceChar key r s =
     (let cl = line (cursor r); cc = col (cursor r); ln = line_or_empty (lines s) cl
      in s\<lparr>lines := js_set (lines s) cl (js_slice 0 cc ln @ key @ js_slice_from (cc + 1) ln),
           modified := True\<rparr>)"

text \<open>
  The \<open>switch\<close> of \<open>handleNormalModeKey\<close>, case by case in the order of the source. In the
  loops of \<open>n\<close> and \<open>N\<close> a read of a line that does not exist throws, and the handler ends
  there with the updates queued before.
\<close>

definition handleNormalModeKey :: "VimState \<Rightarrow> VimState \<Rightarrow> string \<Rightarrow> VimState" where
  "handleNormalModeKey r s key =
     (let count = count_of (numberBuffer r)
      in if is_digit_key key \<and> (numberBuffer r \<noteq> [] \<or> key \<noteq> ''0'')
         then s\<lparr>numberBuffer := numberBuffer s @ key\<rparr>
         else if key = ''h'' \<or> key = ''ArrowLeft'' then resetNumber (repeat count (moveLeft r) s)
         else if key = ''j'' \<or> key = ''ArrowDown'' then resetNumber (repeat count (moveDown r) s)
         else if key = ''k'' \<or> key = ''ArrowUp'' then resetNumber (repeat count (moveUp r) s)
         else if key = ''l'' \<or> key = ''ArrowRight'' then resetNumber (repeat count (moveRight r) s)
         else if key = ''0'' then resetNumber (moveToLineStart r s)
         else if key = ''$'' then resetNumber (moveToLineEnd r s)
         else if key = ''^'' then resetNumber (moveToFirstNonWhitespace r s)
         else if key = ''w'' then resetNumber (repeat count (moveWordForward r) s)
         else if key = ''b'' then resetNumber (repeat count (moveWordBackward r) s)
         else if key = ''g'' then
           resetNumber (if lastCommand r = ''g''
                        then (moveToTop r s)\<lparr>lastCommand := []\<rparr>
                        else s\<lparr>lastCommand := ''g''\<rparr>)
         else if key = ''G'' then
           resetNumber (if numberBuffer r \<noteq> []
                        then s\<lparr>cursor := \<lparr> line = max 0 (min (count - 1)
                                                             (int (length (lines r)) - 1)),
                                           col = 0 \<rparr>\<rparr>
                        else moveToBottom r s)
         else if key = ''i'' then resetNumber (s\<lparr>mode := Insert\<rparr>)
         else if key = ''I'' then resetNumber ((moveToFirstNonWhitespace r s)\<lparr>mode := Insert\<rparr>)
         else if key = ''a'' then
           resetNumber (s\<lparr>cursor := (cursor s)\<lparr>col := min (col (cursor s) + 1)
                                                        (length_or (lines r) (line (cursor s)) 0)\<rparr>,
                          mode := Insert\<rparr>)
         else if key = ''A'' then
           resetNumber (s\<lparr>cursor := (cursor s)\<lparr>col := length_or (lines r) (line (cursor s)) 0\<rparr>,
                          mode := Insert\<rparr>)
         else if key = ''o'' then resetNumber (openLineBelow r s)
         else if key = ''O'' then resetNumber (openLineAbove r s)
         else if key = ''R'' then resetNumber (s\<lparr>mode := Replace\<rparr>)
         else if key = ''v'' then
           resetNumber (s\<lparr>mode := Visual, visualStart := Some (cursor r)\<rparr>)
         else if key = ''V'' then
           resetNumber (s\<lparr>mode := Visual,
                          visualStart := Some \<lparr> line = line (cursor r), col = 0 \<rparr>\<rparr>)
         else if key = '':'' then resetNumber (s\<lparr>mode := Command, commandBuffer := []\<rparr>)
         else if key = ''/'' then resetNumber (s\<lparr>mode := Command, commandBuffer := ''/''\<rparr>)
         else if key = ''x'' then resetNumber (repeat count (deleteChar r) s)
         else if key = ''X'' then resetNumber (repeat count (backspace r) s)
         else if key = ''d'' then
           resetNumber (if lastCommand r = ''d''
                        then (deleteLine count r s)\<lparr>lastCommand := []\<rparr>
                        else s\<lparr>lastCommand := ''d''\<rparr>)
         else if key = ''D'' then resetNumber (cutToLineEnd r s)
         else if key = ''y'' then
           resetNumber (if lastCommand r = ''y''
                        then (yankLine count r s)\<lparr>lastCommand := []\<rparr>
                        else s\<lparr>lastCommand := ''y''\<rparr>)
         else if key = ''Y'' then resetNumber (yankLine count r s)
         else if key = ''p'' then resetNumber (pasteAfter r s)
         else if key = ''P'' then resetNumber (pasteBefore r s)
         else if key = ''J'' then resetNumber (joinLines r s)
         else if key = ''u'' then resetNumber (undoLastChange s)
         else if key = ''r'' then resetNumber (s\<lparr>lastCommand := ''r''\<rparr>)
         else if key = ''c'' then
           resetNumber (if lastCommand r = ''c''
                        then (changeWholeLine r s)\<lparr>lastCommand := []\<rparr>
                        else s\<lparr>lastCommand := ''c''\<rparr>)
         else if key = ''C'' then resetNumber ((cutToLineEnd r s)\<lparr>mode := Insert\<rparr>)
         else if key = ''s'' then resetNumber ((deleteChar r s)\<lparr>mode := Insert\<rparr>)
         else if key = ''S'' then resetNumber (changeWholeLine r s)
         else if key = ''n'' then
           (if searchPattern r \<noteq> []
            then (if line (cursor r) < 0 then s
                  else (case searchForward r (searchPattern r) of
                          Some pos \<Rightarrow> resetNumber (s\<lparr>cursor := pos\<rparr>)
                        | None \<Rightarrow> resetNumber s))
            else resetNumber s)
         else if key = ''N'' then
           (if searchPattern r \<noteq> [] \<and> line (cursor r) \<ge> 0
            then (if line (cursor r) \<ge> int (length (lines r)) then s
                  else (case searchBackward r (searchPattern r) of
                          Some pos \<Rightarrow> resetNumber (s\<lparr>cursor := pos\<rparr>)
                        | None \<Rightarrow> resetNumber s))
            else resetNumber s)
         else if key = ''Escape'' then resetNumber (s\<lparr>lastCommand := []\<rparr>)
         else if key = ''.'' then resetNumber (showStatus ''Repeat command not yet implemented'' s)
         else if key = ''Control'' then resetNumber s
         else if lastCommand r = ''r'' \<and> length key = 1
         then resetNumber ((replaceChar key r s)\<lparr>lastCommand := []\<rparr>)
         else resetNumber s)"

subsection \<open>Keys in Insert, Replace and Visual mode\<close>

definition handleInsertModeKey ::
    "VimState \<Rightarrow> VimState \<Rightarrow> string \<Rightarrow> bool \<Rightarrow> bool \<Rightarrow> VimState" where
  "handleInsertModeKey r s key ctrlKey metaKey =
     (if key = ''Escape'' then
        s\<lparr>mode := Normal,
          cursor := clampCursor (mode r)
                      ((cursor s)\<lparr>col := max 0 (col (cursor s) - 1)\<rparr>) (lines r)\<rparr>
      else if key = ''Backspace'' then backspace r s
      else if key = ''Delete'' then deleteChar r s
      else if key = ''Enter'' then insertNewLine r s
      else if key = ''Tab'' then insertChar ''  '' r s
      else if key = ''ArrowLeft'' then moveLeft r s
      else if key = ''ArrowRight'' then
        s\<lparr>cursor := (cursor s)\<lparr>col := min (col (cursor s) + 1)
                                          (length_or (lines r) (line (cursor s)) 0)\<rparr>\<rparr>
      else if key = ''ArrowUp'' then moveUp r s
      else if key = ''ArrowDown'' then moveDown r s
      else if length key = 1 \<and> \<not> ctrlKey \<and> \<not> metaKey then insertChar key r s
      else s)"

definition handleReplaceModeKey ::
    "VimState \<Rightarrow> VimState \<Rightarrow> string \<Rightarrow> bool \<Rightarrow> bool \<Rightarrow> VimState" where
  "handleReplaceModeKey r s key ctrlKey metaKey =
     (if key = ''Escape'' then s\<lparr>mode := Normal\<rparr>
      else if length key = 1 \<and> \<not> ctrlKey \<and> \<not> metaKey then
        (let cl = line (cursor r); cc = col (cursor r); ln = line_or_empty (lines s) cl
         in s\<lparr>lines := js_set (lines s) cl
                           (if cc < int (length ln)
                            then js_slice 0 cc ln @ key @ js_slice_from (cc + 1) ln
                            else ln @ key),
              cursor := (cursor s)\<lparr>col := col (cursor s) + 1\<rparr>,
              modified := True\<rparr>)
      else s)"

definition visualDelete :: "CursorPosition \<Rightarrow> VimState \<Rightarrow> VimState \<Rightarrow> VimState" where
  "visualDelete vs r s =
     (let startLine = min (line vs) (line (cursor r));
          endLine = max (line vs) (line (cursor r));
          deleted = js_slice startLine (endLine + 1) (lines r);
          newLines = js_splice startLine (endLine - startLine + 1) [] (lines s)
      in showStatus (count_lines_text (int (length deleted)) @ '' deleted'')
           (s\<lparr>yankBuffer := deleted,
              lines := (if length newLines = 0 then newLines @ [[]] else newLines),
              cursor := \<lparr> line = startLine, col = 0 \<rparr>,
              modified := True\<rparr>))"

definition visualYank :: "CursorPosition \<Rightarrow> VimState \<Rightarrow> VimState \<Rightarrow> VimState" where
  "visualYank vs r s =
     (let startLine = min (line vs) (line (cursor r));
          endLine = max (line vs) (line (cursor r));
          yanked = js_slice startLine (endLine + 1) (lines r)
      in showStatus (count_lines_text (int (length yanked)) @ '' yanked'')
           (s\<lparr>yankBuffer := yanked\<rparr>))"

definition handleVisualModeKey :: "VimState \<Rightarrow> VimState \<Rightarrow> string \<Rightarrow> VimState" where
  "handleVisualModeKey r s key =
     (if key = ''Escape'' then s\<lparr>mode := Normal, visualStart := None\<rparr>
      else if key = ''h'' \<or> key = ''ArrowLeft'' then moveLeft r s
      else if key = ''j'' \<or> key = ''ArrowDown'' then moveDown r s
      else if key = ''k'' \<or> key = ''ArrowUp'' then moveUp r s
      else if key = ''l'' \<or> key = ''ArrowRight'' then moveRight r s
      else if key = ''d'' \<or> key = ''x'' then
        (case visualStart r of
           Some vs \<Rightarrow> visualDelete vs r s
         | None \<Rightarrow> s)\<lparr>mode := Normal, visualStart := None\<rparr>
      else if key = ''y'' then
        (case visualStart r of
           Some vs \<Rightarrow> visualYank vs r s
         | None \<Rightarrow> s)\<lparr>mode := Normal, visualStart := None\<rparr>
      else s)"

subsection \<open>Events\<close>

text \<open>
  \<open>handleKeyDown\<close> has no case for Command mode: there the keys go to the input of the
  command line.
\<close>

definition handleKeyDown :: "VimState \<Rightarrow> string \<Rightarrow> bool \<Rightarrow> bool \<Rightarrow> VimState" where
  "handleKeyDown r key ctrlKey metaKey =
     (case mode r of
        Normal \<Rightarrow> handleNormalModeKey r r key
      | Insert \<Rightarrow> handleInsertModeKey r r key ctrlKey metaKey
      | Replace \<Rightarrow> handleReplaceModeKey r r key ctrlKey metaKey
      | Visual \<Rightarrow> handleVisualModeKey r r key
      | Command \<Rightarrow> r)"

text \<open>
  What reaches the component: a key on the editor area (the key with its \<open>ctrlKey\<close> and
  \<open>metaKey\<close> flags), and on the input of the command line, which exists in Command mode
  only, a change of its text, Escape, and the submission of the form; the flag of the
  submission is \<open>eager\<close> of \<open>executeVimCommand\<close>.
\<close>

datatype event =
    KeyDown string bool bool
  | CommandChange string
  | CommandEscape
  | CommandSubmit bool

fun handleEvent :: "VimState \<Rightarrow> event \<Rightarrow> VimState" where
  "handleEvent s (KeyDown key ctrlKey metaKey) = handleKeyDown s key ctrlKey metaKey"
| "handleEvent s (CommandChange text) =
     (if mode s = Command then s\<lparr>commandBuffer := text\<rparr> else s)"
| "handleEvent s CommandEscape =
     (if mode s = Command then s\<lparr>mode := Normal, commandBuffer := []\<rparr> else s)"
| "handleEvent s (CommandSubmit eager) =
     (if mode s = Command then handleCommandSubmit eager s s else s)"

text \<open>The state after a sequence of events, and a key without modifiers.\<close>

definition run :: "VimState \<Rightarrow> event list \<Rightarrow> VimState" where
  "run s evs = foldl handleEvent s evs"

definition press :: "string \<Rightarrow> event" where
  "press key = KeyDown key False False"


section \<open>Predicates on states\<close>

text \<open>
  The bounds of a cursor position as the specification of the editor words them: the
  line within the buffer, the column between \<open>0\<close> and the length of that line in Insert
  mode, and between \<open>0\<close> and \<open>max(lineLength - 1, 0)\<close> in every other mode.
\<close>

definition cursor_bounds :: "VimMode \<Rightarrow> CursorPosition \<Rightarrow> string list \<Rightarrow> bool" where
  "cursor_bounds m pos lns =
     (0 \<le> line pos \<and> line pos \<le> int (length lns) - 1 \<and> 0 \<le> col pos
      \<and> col pos \<le> (if m = Insert
                      then int (length (line_or_empty lns (line pos)))
                      else max (int (length (line_or_empty lns (line pos))) - 1) 0))"

text \<open>
  What every event preserves: the buffer has a line, and neither the cursor nor the anchor
  of a selection is on a negative line.
\<close>

definition buffer_inv :: "VimState \<Rightarrow> bool" where
  "buffer_inv s =
     (lines s \<noteq> [] \<and> 0 \<le> line (cursor s)
      \<and> (case visualStart s of None \<Rightarrow> True | Some vs \<Rightarrow> 0 \<le> line vs))"

text \<open>
  The cursor line is at most one past the last line. While a loop of motions runs, the
  lines are those of the render; while a loop of edits runs, the cursor line of the
  render is at most the number of lines so far and the cursor so far is not below it.
\<close>

definition no_gap :: "VimState \<Rightarrow> bool" where
  "no_gap s = (line (cursor s) \<le> int (length (lines s)))"

definition move_inv :: "VimState \<Rightarrow> VimState \<Rightarrow> bool" where
  "move_inv r t = (lines t = lines r \<and> no_gap t)"

definition edit_inv :: "VimState \<Rightarrow> VimState \<Rightarrow> bool" where
  "edit_inv r t =
     (0 \<le> line (cursor r) \<and> line (cursor r) \<le> int (length (lines t))
      \<and> line (cursor t) \<le> line (cursor r))"

section \<open>Evaluation\<close>

text \<open>The defining equations, for evaluating the editor on concrete keys.\<close>

lemmas js_defs = rel_index_def js_slice_def js_slice_from_def js_splice_def js_get_def
  line_or_empty_def length_or_def js_set_def js_indexOf_def js_lastIndexOf_def js_split_def
  js_replace_def startsWith_def js_includes_def is_space_def trimStart_def trim_def
  digit_char_def show_nat.simps show_int_def digit_val_def is_digit_def digits_value_def
  parseInt_def

lemmas op_defs = initialState_def showStatus_def getContent_def clampCursor_def
  moveLeft_def moveRight_def moveUp_def moveDown_def moveToLineStart_def moveToLineEnd_def
  moveToFirstNonWhitespace_def match_word_forward_def moveWordForward_def
  match_word_backward_def moveWordBackward_def moveToTop_def moveToBottom_def
  insertChar_def insertNewLine_def deleteChar_def backspace_def count_lines_text_def
  deleteLine_def yankLine_def pasteBefore_def pasteAfter_def openLineBelow_def
  openLineAbove_def joinLines_def undoLastChange_def redoLastChange_def
  searchForward_def substitute_def flags_of_def changed_count_def executeVimCommand_def
  handleCommandSubmit_def count_of_def is_digit_key_def resetNumber_def repeat_def
  searchBackward_def changeWholeLine_def cutToLineEnd_def replaceChar_def
  handleNormalModeKey_def handleInsertModeKey_def handleReplaceModeKey_def
  visualDelete_def visualYank_def handleVisualModeKey_def handleKeyDown_def
  run_def press_def

section \<open>Properties of the command line\<close>

lemma trim_q: "trim ''q'' = ''q''"
  by (simp add: trim_def is_space_def)

lemma parseInt_q: "parseInt ''q'' = None"
  by (simp add: parseInt_def is_space_def is_digit_def digit_val_def)

lemma trim_w: "trim ''w'' = ''w''"
  by (simp add: trim_def is_space_def)

lemma parseInt_w: "parseInt ''w'' = None"
  by (simp add: parseInt_def is_space_def is_digit_def digit_val_def)

text \<open>
  Claim C4. The command \<open>q\<close> is decided by the modified flag. When the flag is set the
  only changes are the message \<open>E37: No write since last change (add ! to override)\<close> and
  the mode, which becomes Normal: \<open>onExit\<close> is not called, and the buffer, the cursor and
  the register are those of before. When the flag is clear the only change is one call of
  \<open>onExit\<close>.
\<close>

theorem quit_with_unsaved_changes:
  "executeVimCommand eager s s ''q'' =
     (if modified s
      then s\<lparr>mode := Normal,
             statusMessage := ''E37: No write since last change (add ! to override)''\<rparr>
      else s\<lparr>calls := calls s @ [OnExit]\<rparr>)"
  by (simp add: executeVimCommand_def trim_q parseInt_q showStatus_def)

subsection \<open>Splitting and joining\<close>

lemma split_at_not_Nil: "split_at sep acc s \<noteq> []"
  by (induction sep acc s rule: split_at.induct) auto

lemma js_join_Cons: "ys \<noteq> [] \<Longrightarrow> js_join sep (x # ys) = x @ sep @ js_join sep ys"
  by (cases ys) auto

lemma join_split_at: "sep \<noteq> [] \<Longrightarrow> js_join sep (split_at sep acc s) = rev acc @ s"
proof (induction sep acc s rule: split_at.induct)
  case (1 sep acc)
  then show ?case by simp
next
  case (2 sep acc x xs)
  show ?case
  proof (cases "take (length sep) (x # xs) = sep")
    case True
    have "x # xs = take (length sep) (x # xs) @ drop (length sep) (x # xs)" by simp
    also have "drop (length sep) (x # xs) = drop (length sep - 1) xs"
      using \<open>sep \<noteq> []\<close> by (cases sep) auto
    finally have eq: "x # xs = sep @ drop (length sep - 1) xs" using True by simp
    have "js_join sep (split_at sep acc (x # xs))
          = rev acc @ sep @ js_join sep (split_at sep [] (drop (length sep - 1) xs))"
      using True by (simp add: js_join_Cons split_at_not_Nil)
    also have "\<dots> = rev acc @ sep @ drop (length sep - 1) xs"
      using 2(1)[OF True] \<open>sep \<noteq> []\<close> by simp
    finally show ?thesis using eq by simp
  next
    case False
    then show ?thesis using 2(2) \<open>sep \<noteq> []\<close> by simp
  qed
qed

text \<open>The text of the buffer on mount is the initial content, whatever it is.\<close>

lemma getContent_initialState: "getContent (initialState fname c) = c"
  using join_split_at[of "[CHR 0x0A]" "[]" c]
  by (simp add: getContent_def initialState_def js_split_def split_at_not_Nil)

text \<open>
  Claim C5. The command \<open>w\<close> calls \<open>onSave\<close> once, with the lines of the buffer joined by
  line feeds, reports the file name in double quotes followed by the number of lines and
  the number of characters of that text (\<open>"name" 3L, 5C written\<close>), clears the modified
  flag and sets the mode to Normal; nothing else changes. On a buffer just loaded the
  text saved is the initial content itself, in particular for the content \<open>a\<close>, \<open>b\<close>, \<open>c\<close>
  on three lines, where the message ends in \<open>3L, 5C written\<close>.
\<close>

theorem write_saves_buffer_text:
  "executeVimCommand eager s s ''w'' =
     s\<lparr>calls := calls s @ [OnSave (js_join [CHR 0x0A] (lines s))],
       modified := False,
       mode := Normal,
       statusMessage := [CHR 0x22] @ filename s @ [CHR 0x22] @ '' ''
                        @ show_nat (length (lines s)) @ ''L, ''
                        @ show_nat (length (js_join [CHR 0x0A] (lines s))) @ ''C written''\<rparr>
   \<and> calls (executeVimCommand eager (initialState fname c) (initialState fname c) ''w'')
       = [OnSave c]
   \<and> calls (executeVimCommand eager
              (initialState fname [CHR ''a'', CHR 0x0A, CHR ''b'', CHR 0x0A, CHR ''c''])
              (initialState fname [CHR ''a'', CHR 0x0A, CHR ''b'', CHR 0x0A, CHR ''c'']) ''w'')
       = [OnSave [CHR ''a'', CHR 0x0A, CHR ''b'', CHR 0x0A, CHR ''c'']]
   \<and> statusMessage (executeVimCommand eager
              (initialState fname [CHR ''a'', CHR 0x0A, CHR ''b'', CHR 0x0A, CHR ''c''])
              (initialState fname [CHR ''a'', CHR 0x0A, CHR ''b'', CHR 0x0A, CHR ''c'']) ''w'')
       = [CHR 0x22] @ fname @ [CHR 0x22] @ '' 3L, 5C written''"
proof -
  have w: "\<And>r. executeVimCommand eager r r ''w'' =
     r\<lparr>calls := calls r @ [OnSave (getContent r)],
       modified := False,
       mode := Normal,
       statusMessage := [CHR 0x22] @ filename r @ [CHR 0x22] @ '' ''
                        @ show_nat (length (lines r)) @ ''L, ''
                        @ show_nat (length (getContent r)) @ ''C written''\<rparr>"
    by (simp add: executeVimCommand_def trim_w parseInt_w showStatus_def)
  have i: "\<And>c. calls (executeVimCommand eager (initialState fname c) (initialState fname c) ''w'')
       = [OnSave c]"
    unfolding w by (simp add: getContent_initialState) (simp add: initialState_def)
  have m: "statusMessage (executeVimCommand eager
              (initialState fname [CHR ''a'', CHR 0x0A, CHR ''b'', CHR 0x0A, CHR ''c''])
              (initialState fname [CHR ''a'', CHR 0x0A, CHR ''b'', CHR 0x0A, CHR ''c'']) ''w'')
       = [CHR 0x22] @ fname @ [CHR 0x22] @ '' 3L, 5C written''"
    unfolding w
    by (simp add: getContent_def initialState_def js_split_def show_nat.simps digit_char_def)
  show ?thesis
    using w[of s] i m by (simp add: getContent_def)
qed

subsection \<open>Substitution\<close>

text \<open>
  Claim C8. Without the flag \<open>g\<close> the command \<open>s/old/new/\<close> goes through
  \<open>String.replace\<close>, which expands \<open>$&\<close> in \<open>new\<close> to the matched text; with the flag it goes
  through \<open>split\<close> and \<open>join\<close>, which insert \<open>new\<close> as it is. On the buffer \<open>abc\<close> the
  command \<open>s/b/[$&]/\<close> gives \<open>a[b]c\<close>, where the text \<open>new\<close> inserted as it is would give
  \<open>a[$&]c\<close>, the result of \<open>s/b/[$&]/g\<close>.
\<close>

theorem substitute_first_expands_dollar_patterns:
  "lines (run (initialState ''f'' ''abc'')
            [press '':'', CommandChange ''s/b/[$&]/'', CommandSubmit True]) = [''a[b]c'']
   \<and> lines (run (initialState ''f'' ''abc'')
            [press '':'', CommandChange ''s/b/[$&]/g'', CommandSubmit True]) = [''a[$&]c'']"
  by (simp add: js_defs op_defs)

text \<open>
  Claim C9. On the buffer \<open>a,b\<close> the command \<open>%s/,/;/\<close> changes the one line to \<open>a;b\<close>.
  When React runs the updater of \<open>setLines\<close> only at the next render, the message,
  formatted before, says \<open>0 substitutions\<close>; when React runs it at once the message says
  \<open>1 substitution\<close>.
\<close>

theorem global_substitute_count_message:
  "lines (run (initialState ''f'' ''a,b'')
            [press '':'', CommandChange ''%s/,/;/'', CommandSubmit False]) = [''a;b'']
   \<and> statusMessage (run (initialState ''f'' ''a,b'')
            [press '':'', CommandChange ''%s/,/;/'', CommandSubmit False]) = ''0 substitutions''
   \<and> statusMessage (run (initialState ''f'' ''a,b'')
            [press '':'', CommandChange ''%s/,/;/'', CommandSubmit True]) = ''1 substitution''"
  by (simp add: js_defs op_defs)

section \<open>Properties of the register\<close>

text \<open>
  Claim C10. With an empty register \<open>pasteAfter\<close> and \<open>pasteBefore\<close> return at once: the
  state is the one before, in every mode, so the buffer, the cursor, the modified flag
  and the mode are unchanged and no message is set. For the keys \<open>p\<close> and \<open>P\<close> of Normal
  mode the only change is that the pending count is cleared.
\<close>

theorem paste_with_empty_register:
  "yankBuffer r = [] \<Longrightarrow>
     pasteAfter r s = s \<and> pasteBefore r s = s
     \<and> (mode r = Normal \<longrightarrow>
          handleEvent r (KeyDown ''p'' c m) = r\<lparr>numberBuffer := []\<rparr>
        \<and> handleEvent r (KeyDown ''P'' c m) = r\<lparr>numberBuffer := []\<rparr>)"
  by (simp add: pasteAfter_def pasteBefore_def handleKeyDown_def handleNormalModeKey_def
        is_digit_key_def is_digit_def digit_val_def resetNumber_def)

theorem paste_with_empty_register_witness:
  "yankBuffer (initialState ''notes.txt'' ''ab'') = []
   \<and> mode (initialState ''notes.txt'' ''ab'') = Normal
   \<and> pasteAfter (initialState ''notes.txt'' ''ab'') (initialState ''notes.txt'' ''ab'')
       = initialState ''notes.txt'' ''ab''
   \<and> pasteBefore (initialState ''notes.txt'' ''ab'') (initialState ''notes.txt'' ''ab'')
       = initialState ''notes.txt'' ''ab''
   \<and> handleEvent (initialState ''notes.txt'' ''ab'') (KeyDown ''p'' False False)
       = (initialState ''notes.txt'' ''ab'')\<lparr>numberBuffer := []\<rparr>
   \<and> handleEvent (initialState ''notes.txt'' ''ab'') (KeyDown ''P'' False False)
       = (initialState ''notes.txt'' ''ab'')\<lparr>numberBuffer := []\<rparr>"
  using paste_with_empty_register
          [of "initialState ''notes.txt'' ''ab''" "initialState ''notes.txt'' ''ab''" False False]
  by (simp add: initialState_def)


subsection \<open>Yank and paste\<close>

lemma key_y_not_digit: "\<not> is_digit_key ''y''" "\<not> is_digit_key ''p''"
  by (simp_all add: is_digit_key_def is_digit_def digit_val_def)

lemma js_splice_insert:
  "0 \<le> a \<Longrightarrow> js_splice a 0 ys xs = take (nat a) xs @ ys @ drop (nat a) xs"
  by (simp add: js_splice_def rel_index_def min_def Let_def)

lemma paste_after_lines:
  assumes "0 \<le> i"
  shows "(if js_slice i e xs = [] then xs else js_splice (i + 1) 0 (js_slice i e xs) xs)
         = take (Suc (nat i)) xs @ js_slice i e xs @ drop (Suc (nat i)) xs"
proof (cases "js_slice i e xs = []")
  case True
  then show ?thesis by simp
next
  case False
  have "nat (i + 1) = Suc (nat i)" using assms by simp
  then show ?thesis using False assms by (simp add: js_splice_insert)
qed

lemma press_y:
  "mode s = Normal \<Longrightarrow>
   handleEvent s (press ''y'') =
     (if lastCommand s = ''y''
      then (yankLine (count_of (numberBuffer s)) s s)\<lparr>lastCommand := [], numberBuffer := []\<rparr>
      else s\<lparr>lastCommand := ''y'', numberBuffer := []\<rparr>)"
  by (simp add: press_def handleKeyDown_def handleNormalModeKey_def key_y_not_digit
        resetNumber_def Let_def)

lemma press_p:
  "mode s = Normal \<Longrightarrow> handleEvent s (press ''p'') = (pasteAfter s s)\<lparr>numberBuffer := []\<rparr>"
  by (simp add: press_def handleKeyDown_def handleNormalModeKey_def key_y_not_digit
        resetNumber_def Let_def)

lemma count_of_Nil: "count_of [] = 1"
  by (simp add: count_of_def parseInt_def)

lemma yy:
  assumes "mode s = Normal"
  shows "run s [press ''y'', press ''y''] =
     (if lastCommand s = ''y''
      then (yankLine (count_of (numberBuffer s)) s s)\<lparr>lastCommand := ''y'', numberBuffer := []\<rparr>
      else (yankLine 1 s s)\<lparr>lastCommand := [], numberBuffer := []\<rparr>)"
proof (cases "lastCommand s = ''y''")
  case True
  let ?s1 = "(yankLine (count_of (numberBuffer s)) s s)\<lparr>lastCommand := [], numberBuffer := []\<rparr>"
  have m: "mode ?s1 = Normal" using assms by (simp add: yankLine_def showStatus_def Let_def)
  have "run s [press ''y'', press ''y''] = handleEvent ?s1 (press ''y'')"
    using assms True by (simp add: run_def press_y)
  then show ?thesis using True press_y[OF m] by simp
next
  case False
  let ?s1 = "s\<lparr>lastCommand := ''y'', numberBuffer := []\<rparr>"
  have m: "mode ?s1 = Normal" using assms by simp
  have "run s [press ''y'', press ''y''] = handleEvent ?s1 (press ''y'')"
    using assms False by (simp add: run_def press_y)
  then show ?thesis using False press_y[OF m]
    by (simp add: count_of_Nil yankLine_def showStatus_def Let_def)
qed

text \<open>
  Claim C6. In Normal mode, with the cursor on line \<open>i\<close>, the keys \<open>y\<close>, \<open>y\<close> store in the
  register the lines from \<open>i\<close> on that \<open>slice\<close> selects (one line, or the pending count of
  lines when the first \<open>y\<close> completes an earlier one); the key \<open>p\<close> then leaves the buffer
  as the lines up to and including line \<open>i\<close>, the register, and the lines after line \<open>i\<close>,
  and leaves the register as it was.
\<close>

theorem yank_then_paste_after:
  assumes "mode s = Normal" and "0 \<le> line (cursor s)"
  shows "yankBuffer (run s [press ''y'', press ''y''])
           = js_slice (line (cursor s))
               (line (cursor s) + (if lastCommand s = ''y'' then count_of (numberBuffer s) else 1))
               (lines s)
       \<and> lines (run s [press ''y'', press ''y'', press ''p''])
           = take (Suc (nat (line (cursor s)))) (lines s)
             @ yankBuffer (run s [press ''y'', press ''y''])
             @ drop (Suc (nat (line (cursor s)))) (lines s)
       \<and> yankBuffer (run s [press ''y'', press ''y'', press ''p''])
           = yankBuffer (run s [press ''y'', press ''y''])"
proof -
  let ?s2 = "run s [press ''y'', press ''y'']"
  let ?c = "if lastCommand s = ''y'' then count_of (numberBuffer s) else 1"
  have m: "mode ?s2 = Normal"
    using assms(1) by (simp add: yy[OF assms(1)] yankLine_def showStatus_def Let_def)
  have l: "lines ?s2 = lines s" and c: "cursor ?s2 = cursor s"
    by (simp_all add: yy[OF assms(1)] yankLine_def showStatus_def Let_def)
  have y: "yankBuffer ?s2 = js_slice (line (cursor s)) (line (cursor s) + ?c) (lines s)"
    by (simp add: yy[OF assms(1)] yankLine_def showStatus_def Let_def)
  have r: "run s [press ''y'', press ''y'', press ''p''] = handleEvent ?s2 (press ''p'')"
    by (simp add: run_def)
  have p: "handleEvent ?s2 (press ''p'') = (pasteAfter ?s2 ?s2)\<lparr>numberBuffer := []\<rparr>"
    by (rule press_p[OF m])
  have "lines (pasteAfter ?s2 ?s2)
        = (if yankBuffer ?s2 = [] then lines s
           else js_splice (line (cursor s) + 1) 0 (yankBuffer ?s2) (lines s))"
    by (simp add: pasteAfter_def showStatus_def l c)
  also have "\<dots> = take (Suc (nat (line (cursor s)))) (lines s) @ yankBuffer ?s2
                   @ drop (Suc (nat (line (cursor s)))) (lines s)"
    unfolding y by (rule paste_after_lines[OF assms(2)])
  finally have pl: "lines (pasteAfter ?s2 ?s2)
        = take (Suc (nat (line (cursor s)))) (lines s) @ yankBuffer ?s2
          @ drop (Suc (nat (line (cursor s)))) (lines s)" .
  have py: "yankBuffer (pasteAfter ?s2 ?s2) = yankBuffer ?s2"
    by (simp add: pasteAfter_def showStatus_def)
  show ?thesis
    unfolding r p using y pl py by simp
qed

theorem yank_then_paste_after_witness:
  "mode (initialState ''notes.txt'' [CHR ''a'', CHR 0x0A, CHR ''b'']) = Normal
   \<and> 0 \<le> line (cursor (initialState ''notes.txt'' [CHR ''a'', CHR 0x0A, CHR ''b'']))
   \<and> yankBuffer (run (initialState ''notes.txt'' [CHR ''a'', CHR 0x0A, CHR ''b''])
                   [press ''y'', press ''y'']) = [''a'']
   \<and> lines (run (initialState ''notes.txt'' [CHR ''a'', CHR 0x0A, CHR ''b''])
              [press ''y'', press ''y'', press ''p'']) = [''a'', ''a'', ''b'']
   \<and> yankBuffer (run (initialState ''notes.txt'' [CHR ''a'', CHR 0x0A, CHR ''b''])
                   [press ''y'', press ''y'', press ''p'']) = [''a'']"
  using yank_then_paste_after[of "initialState ''notes.txt'' [CHR ''a'', CHR 0x0A, CHR ''b'']"]
  by (simp add: initialState_def js_split_def js_slice_def rel_index_def)


text \<open>
  Claim C7. \<open>pasteBefore\<close> does not touch the cursor. On the buffer \<open>ab\<close> the keys \<open>y\<close>, \<open>y\<close>,
  \<open>l\<close>, \<open>P\<close> put the line \<open>ab\<close> before the cursor line and leave the cursor on line \<open>0\<close> at
  column \<open>1\<close>: on the first pasted line, not at column \<open>0\<close>.
\<close>

theorem paste_before_keeps_column:
  "lines (run (initialState ''f'' ''ab'') [press ''y'', press ''y'', press ''l'', press ''P''])
     = [''ab'', ''ab'']
   \<and> cursor (run (initialState ''f'' ''ab'') [press ''y'', press ''y'', press ''l'', press ''P''])
     = \<lparr> line = 0, col = 1 \<rparr>"
  by (simp add: js_defs op_defs)

subsection \<open>Deleting lines\<close>

lemma dd_on_first_line:
  "run (initialState ''f'' (''one'' @ [CHR 0x0A] @ ''two'' @ [CHR 0x0A] @ ''three''))
     [press ''d'', press ''d'']
   = \<lparr> filename = ''f'', lines = [''two'', ''three''], mode = Normal,
       cursor = \<lparr> line = 0, col = 0 \<rparr>, commandBuffer = [],
       statusMessage = ''1 line deleted'', modified = True, visualStart = None,
       yankBuffer = [''one''], searchPattern = [], lastCommand = [], numberBuffer = [],
       calls = [] \<rparr>"
  by (simp add: js_defs op_defs)

lemma dd_on_last_line:
  "run (initialState ''f'' (''one'' @ [CHR 0x0A] @ ''two'' @ [CHR 0x0A] @ ''three''))
     [press ''G'', press ''d'', press ''d'']
   = \<lparr> filename = ''f'', lines = [''one'', ''two''], mode = Normal,
       cursor = \<lparr> line = 2, col = 0 \<rparr>, commandBuffer = [],
       statusMessage = ''1 line deleted'', modified = True, visualStart = None,
       yankBuffer = [''three''], searchPattern = [], lastCommand = [], numberBuffer = [],
       calls = [] \<rparr>"
  by (simp add: js_defs op_defs)

text \<open>
  Claim C3. On the buffer \<open>one\<close>, \<open>two\<close>, \<open>three\<close> with the cursor on the first line, \<open>dd\<close>
  leaves \<open>two\<close>, \<open>three\<close>, the register \<open>one\<close> and the cursor at line \<open>0\<close>, column \<open>0\<close>. With
  the cursor on the last line (after \<open>G\<close>) it leaves \<open>one\<close>, \<open>two\<close> and the register
  \<open>three\<close>, and the cursor on line \<open>2\<close>, which the buffer of two lines does not have:
  \<open>deleteLine\<close> clamps the cursor against the lines of before the deletion.
\<close>

theorem delete_line_clamps_against_old_buffer:
  "lines (run (initialState ''f'' (''one'' @ [CHR 0x0A] @ ''two'' @ [CHR 0x0A] @ ''three''))
            [press ''d'', press ''d'']) = [''two'', ''three'']
   \<and> yankBuffer (run (initialState ''f'' (''one'' @ [CHR 0x0A] @ ''two'' @ [CHR 0x0A] @ ''three''))
            [press ''d'', press ''d'']) = [''one'']
   \<and> cursor (run (initialState ''f'' (''one'' @ [CHR 0x0A] @ ''two'' @ [CHR 0x0A] @ ''three''))
            [press ''d'', press ''d'']) = \<lparr> line = 0, col = 0 \<rparr>
   \<and> lines (run (initialState ''f'' (''one'' @ [CHR 0x0A] @ ''two'' @ [CHR 0x0A] @ ''three''))
            [press ''G'', press ''d'', press ''d'']) = [''one'', ''two'']
   \<and> yankBuffer (run (initialState ''f'' (''one'' @ [CHR 0x0A] @ ''two'' @ [CHR 0x0A] @ ''three''))
            [press ''G'', press ''d'', press ''d'']) = [''three'']
   \<and> cursor (run (initialState ''f'' (''one'' @ [CHR 0x0A] @ ''two'' @ [CHR 0x0A] @ ''three''))
            [press ''G'', press ''d'', press ''d'']) = \<lparr> line = 2, col = 0 \<rparr>
   \<and> \<not> cursor_bounds Normal \<lparr> line = 2, col = 0 \<rparr> [''one'', ''two'']"
  unfolding dd_on_first_line dd_on_last_line
  by (simp add: cursor_bounds_def)

section \<open>Properties of the cursor\<close>









section \<open>The buffer is never empty\<close>

lemma js_set_not_Nil: "xs \<noteq> [] \<Longrightarrow> js_set xs i v \<noteq> []"
  by (simp add: js_set_def)

lemma js_splice_insert_not_Nil: "xs \<noteq> [] \<Longrightarrow> js_splice a 0 items xs \<noteq> []"
  by (cases xs) (auto simp: js_splice_def rel_index_def Let_def min_def)

lemma js_splice_after_first_not_Nil: "0 < a \<Longrightarrow> xs \<noteq> [] \<Longrightarrow> js_splice a d items xs \<noteq> []"
  by (cases xs) (auto simp: js_splice_def rel_index_def Let_def min_def)

lemma clampCursor_line_nonneg: "0 \<le> line (clampCursor m pos lns)"
  by (simp add: clampCursor_def Let_def)

lemma scanForward_line: "scanForward pat ls i from = Some pos \<Longrightarrow> i \<le> line pos"
  by (induction pat ls i "from" rule: scanForward.induct) (auto split: if_splits)

lemma scanBackward_line: "scanBackward pat f n = Some pos \<Longrightarrow> 0 \<le> line pos"
  by (induction pat f n rule: scanBackward.induct) (auto split: if_splits)

lemma buffer_inv_irrelevant [simp]:
  "buffer_inv (s\<lparr>numberBuffer := nb\<rparr>) = buffer_inv s"
  "buffer_inv (s\<lparr>lastCommand := lc\<rparr>) = buffer_inv s"
  "buffer_inv (s\<lparr>mode := m\<rparr>) = buffer_inv s"
  "buffer_inv (s\<lparr>commandBuffer := cb\<rparr>) = buffer_inv s"
  "buffer_inv (s\<lparr>statusMessage := sm\<rparr>) = buffer_inv s"
  "buffer_inv (s\<lparr>modified := md\<rparr>) = buffer_inv s"
  "buffer_inv (s\<lparr>yankBuffer := yb\<rparr>) = buffer_inv s"
  "buffer_inv (s\<lparr>searchPattern := sp\<rparr>) = buffer_inv s"
  "buffer_inv (s\<lparr>calls := cs\<rparr>) = buffer_inv s"
  by (simp_all add: buffer_inv_def)

lemma buffer_inv_resetNumber [simp]: "buffer_inv (resetNumber s) = buffer_inv s"
  by (simp add: resetNumber_def)

lemma buffer_inv_showStatus [simp]: "buffer_inv (showStatus msg s) = buffer_inv s"
  by (simp add: showStatus_def)

lemma buffer_inv_cursor: "buffer_inv s \<Longrightarrow> 0 \<le> line pos \<Longrightarrow> buffer_inv (s\<lparr>cursor := pos\<rparr>)"
  by (simp add: buffer_inv_def)

lemma buffer_inv_lines: "buffer_inv s \<Longrightarrow> ls \<noteq> [] \<Longrightarrow> buffer_inv (s\<lparr>lines := ls\<rparr>)"
  by (simp add: buffer_inv_def)

lemma buffer_inv_visualStart_None [simp]:
  "buffer_inv (s\<lparr>visualStart := None\<rparr>) = (lines s \<noteq> [] \<and> 0 \<le> line (cursor s))"
  by (simp add: buffer_inv_def)

lemma buffer_inv_funpow:
  assumes "\<And>t. buffer_inv t \<Longrightarrow> buffer_inv (f t)" and "buffer_inv s"
  shows "buffer_inv ((f ^^ k) s)"
  by (induction k) (simp_all add: assms)

lemma buffer_inv_repeat:
  assumes "\<And>t. buffer_inv t \<Longrightarrow> buffer_inv (f t)" and "buffer_inv s"
  shows "buffer_inv (repeat n f s)"
  unfolding repeat_def using assms by (rule buffer_inv_funpow)

subsection \<open>Motions\<close>

lemma buffer_inv_moveLeft: "buffer_inv s \<Longrightarrow> buffer_inv (moveLeft r s)"
  by (simp add: moveLeft_def buffer_inv_cursor clampCursor_line_nonneg)

lemma buffer_inv_moveRight: "buffer_inv s \<Longrightarrow> buffer_inv (moveRight r s)"
  by (simp add: moveRight_def buffer_inv_cursor clampCursor_line_nonneg)

lemma buffer_inv_moveUp: "buffer_inv s \<Longrightarrow> buffer_inv (moveUp r s)"
  by (simp add: moveUp_def buffer_inv_cursor clampCursor_line_nonneg)

lemma buffer_inv_moveDown: "buffer_inv s \<Longrightarrow> buffer_inv (moveDown r s)"
  by (simp add: moveDown_def buffer_inv_cursor clampCursor_line_nonneg)

lemma buffer_inv_col: "buffer_inv s \<Longrightarrow> buffer_inv (s\<lparr>cursor := (cursor s)\<lparr>col := c\<rparr>\<rparr>)"
  by (simp add: buffer_inv_def)

lemma buffer_inv_moveToLineStart: "buffer_inv s \<Longrightarrow> buffer_inv (moveToLineStart r s)"
  by (simp add: moveToLineStart_def buffer_inv_col)

lemma buffer_inv_moveToLineEnd: "buffer_inv s \<Longrightarrow> buffer_inv (moveToLineEnd r s)"
  by (simp add: moveToLineEnd_def buffer_inv_col)

lemma buffer_inv_moveToFirstNonWhitespace:
  "buffer_inv s \<Longrightarrow> buffer_inv (moveToFirstNonWhitespace r s)"
  by (simp add: moveToFirstNonWhitespace_def buffer_inv_col Let_def)

lemma buffer_inv_moveWordForward: "buffer_inv s \<Longrightarrow> buffer_inv (moveWordForward r s)"
  by (auto simp: moveWordForward_def Let_def buffer_inv_def split: option.splits)

lemma buffer_inv_moveWordBackward: "buffer_inv s \<Longrightarrow> buffer_inv (moveWordBackward r s)"
  by (auto simp: moveWordBackward_def Let_def buffer_inv_def split: option.splits)

lemma buffer_inv_moveToTop: "buffer_inv s \<Longrightarrow> buffer_inv (moveToTop r s)"
  by (simp add: moveToTop_def buffer_inv_def)

lemma buffer_inv_moveToBottom:
  "buffer_inv r \<Longrightarrow> buffer_inv s \<Longrightarrow> buffer_inv (moveToBottom r s)"
  by (cases "lines r") (simp_all add: moveToBottom_def buffer_inv_def)

subsection \<open>Editing commands\<close>

lemma buffer_inv_insertChar: "buffer_inv s \<Longrightarrow> buffer_inv (insertChar ch r s)"
  by (simp add: insertChar_def Let_def buffer_inv_def js_set_not_Nil)

lemma buffer_inv_insertNewLine: "buffer_inv s \<Longrightarrow> buffer_inv (insertNewLine r s)"
  by (simp add: insertNewLine_def Let_def buffer_inv_def js_set_not_Nil js_splice_insert_not_Nil)

lemma buffer_inv_deleteChar:
  "0 \<le> line (cursor r) \<Longrightarrow> buffer_inv s \<Longrightarrow> buffer_inv (deleteChar r s)"
  by (simp add: deleteChar_def Let_def buffer_inv_def js_set_not_Nil
        js_splice_after_first_not_Nil)

lemma buffer_inv_backspace: "buffer_inv s \<Longrightarrow> buffer_inv (backspace r s)"
  by (simp add: backspace_def Let_def buffer_inv_def js_set_not_Nil
        js_splice_after_first_not_Nil)

lemma buffer_inv_deleteLine: "buffer_inv s \<Longrightarrow> buffer_inv (deleteLine n r s)"
  by (simp add: deleteLine_def Let_def buffer_inv_def clampCursor_line_nonneg showStatus_def)

lemma buffer_inv_yankLine: "buffer_inv s \<Longrightarrow> buffer_inv (yankLine n r s)"
  by (simp add: yankLine_def Let_def)

lemma buffer_inv_pasteBefore: "buffer_inv s \<Longrightarrow> buffer_inv (pasteBefore r s)"
  by (simp add: pasteBefore_def buffer_inv_def js_splice_insert_not_Nil showStatus_def)

lemma buffer_inv_pasteAfter: "buffer_inv s \<Longrightarrow> buffer_inv (pasteAfter r s)"
  by (simp add: pasteAfter_def buffer_inv_def js_splice_insert_not_Nil showStatus_def)

lemma buffer_inv_openLineBelow: "buffer_inv s \<Longrightarrow> buffer_inv (openLineBelow r s)"
  by (simp add: openLineBelow_def buffer_inv_def js_splice_insert_not_Nil)

lemma buffer_inv_openLineAbove: "buffer_inv s \<Longrightarrow> buffer_inv (openLineAbove r s)"
  by (simp add: openLineAbove_def buffer_inv_def js_splice_insert_not_Nil)

lemma buffer_inv_joinLines:
  "0 \<le> line (cursor r) \<Longrightarrow> buffer_inv s \<Longrightarrow> buffer_inv (joinLines r s)"
  by (simp add: joinLines_def Let_def buffer_inv_def js_set_not_Nil
        js_splice_after_first_not_Nil)

lemma buffer_inv_changeWholeLine: "buffer_inv s \<Longrightarrow> buffer_inv (changeWholeLine r s)"
  by (simp add: changeWholeLine_def buffer_inv_def js_set_not_Nil)

lemma buffer_inv_cutToLineEnd: "buffer_inv s \<Longrightarrow> buffer_inv (cutToLineEnd r s)"
  by (simp add: cutToLineEnd_def buffer_inv_def js_set_not_Nil)

lemma buffer_inv_replaceChar: "buffer_inv s \<Longrightarrow> buffer_inv (replaceChar key r s)"
  by (simp add: replaceChar_def Let_def buffer_inv_def js_set_not_Nil)

lemma buffer_inv_visualDelete:
  "0 \<le> line vs \<Longrightarrow> 0 \<le> line (cursor r) \<Longrightarrow> buffer_inv s \<Longrightarrow> buffer_inv (visualDelete vs r s)"
  by (simp add: visualDelete_def Let_def buffer_inv_def showStatus_def)

lemma buffer_inv_visualYank: "buffer_inv s \<Longrightarrow> buffer_inv (visualYank vs r s)"
  by (simp add: visualYank_def Let_def)

lemma searchForward_line:
  "0 \<le> line (cursor r) \<Longrightarrow> searchForward r pat = Some pos \<Longrightarrow> 0 \<le> line pos"
  unfolding searchForward_def by (drule scanForward_line) simp

lemma searchBackward_line: "searchBackward r pat = Some pos \<Longrightarrow> 0 \<le> line pos"
  unfolding searchBackward_def by (rule scanBackward_line)


subsection \<open>Handlers\<close>

lemma buffer_inv_if:
  "buffer_inv a \<Longrightarrow> buffer_inv b \<Longrightarrow> buffer_inv (if c then a else b)"
  by simp

lemma buffer_inv_case_option:
  "buffer_inv a \<Longrightarrow> (\<And>x. v = Some x \<Longrightarrow> buffer_inv (f x))
   \<Longrightarrow> buffer_inv (case v of None \<Rightarrow> a | Some x \<Rightarrow> f x)"
  by (cases v) simp_all

lemma buffer_inv_handleNormalModeKey:
  assumes r: "buffer_inv r" and s: "buffer_inv s"
  shows "buffer_inv (handleNormalModeKey r s key)"
proof -
  have cr: "0 \<le> line (cursor r)" using r by (simp add: buffer_inv_def)
  note ops = buffer_inv_repeat buffer_inv_moveLeft buffer_inv_moveRight buffer_inv_moveUp
    buffer_inv_moveDown buffer_inv_moveToLineStart buffer_inv_moveToLineEnd
    buffer_inv_moveToFirstNonWhitespace buffer_inv_moveWordForward
    buffer_inv_moveWordBackward buffer_inv_moveToTop buffer_inv_moveToBottom[OF r]
    buffer_inv_deleteChar[OF cr] buffer_inv_backspace buffer_inv_deleteLine
    buffer_inv_yankLine buffer_inv_pasteBefore buffer_inv_pasteAfter
    buffer_inv_openLineBelow buffer_inv_openLineAbove buffer_inv_joinLines[OF cr]
    buffer_inv_changeWholeLine buffer_inv_cutToLineEnd buffer_inv_replaceChar
    buffer_inv_col
  have g: "buffer_inv (s\<lparr>cursor := \<lparr>line = max 0 a, col = 0\<rparr>\<rparr>)" for a
    using s by (simp add: buffer_inv_def)
  have v: "buffer_inv (s\<lparr>mode := Visual, visualStart := Some (cursor r)\<rparr>)"
          "buffer_inv (s\<lparr>mode := Visual,
                         visualStart := Some \<lparr>line = line (cursor r), col = 0\<rparr>\<rparr>)"
    using s cr by (simp_all add: buffer_inv_def)
  have n: "buffer_inv (s\<lparr>cursor := pos\<rparr>)"
    if "searchForward r (searchPattern r) = Some pos" for pos
    using s searchForward_line[OF cr that] by (simp add: buffer_inv_def)
  have b: "buffer_inv (s\<lparr>cursor := pos\<rparr>)"
    if "searchBackward r (searchPattern r) = Some pos" for pos
    using s searchBackward_line[OF that] by (simp add: buffer_inv_def)
  show ?thesis
    unfolding handleNormalModeKey_def Let_def undoLastChange_def
    apply (intro buffer_inv_if)
    apply (simp_all add: s ops g v split del: if_split)
    apply (safe intro!: buffer_inv_if buffer_inv_case_option)
    apply (simp_all add: s ops g n b)
    done
qed

lemma buffer_inv_handleInsertModeKey:
  assumes r: "buffer_inv r" and s: "buffer_inv s"
  shows "buffer_inv (handleInsertModeKey r s key c m)"
proof -
  have cr: "0 \<le> line (cursor r)" using r by (simp add: buffer_inv_def)
  have e: "buffer_inv (s\<lparr>mode := Normal, cursor := clampCursor m' pos lns\<rparr>)" for m' pos lns
    using s by (simp add: buffer_inv_def clampCursor_line_nonneg)
  show ?thesis
    unfolding handleInsertModeKey_def
    by (intro buffer_inv_if)
       (simp_all add: s e buffer_inv_backspace buffer_inv_deleteChar[OF cr]
          buffer_inv_insertNewLine buffer_inv_insertChar buffer_inv_moveLeft
          buffer_inv_moveUp buffer_inv_moveDown buffer_inv_col)
qed

lemma buffer_inv_handleReplaceModeKey:
  assumes s: "buffer_inv s"
  shows "buffer_inv (handleReplaceModeKey r s key c m)"
  unfolding handleReplaceModeKey_def Let_def
  using s by (intro buffer_inv_if) (simp_all add: buffer_inv_def js_set_not_Nil)

lemma buffer_inv_handleVisualModeKey:
  assumes r: "buffer_inv r" and s: "buffer_inv s"
  shows "buffer_inv (handleVisualModeKey r s key)"
proof -
  have cr: "0 \<le> line (cursor r)" using r by (simp add: buffer_inv_def)
  have s': "lines s \<noteq> []" "0 \<le> line (cursor s)" using s by (simp_all add: buffer_inv_def)
  have d: "buffer_inv ((case visualStart r of None \<Rightarrow> s | Some vs \<Rightarrow> visualDelete vs r s)
                        \<lparr>mode := Normal, visualStart := None\<rparr>)"
  proof (cases "visualStart r")
    case None
    then show ?thesis using s' by simp
  next
    case (Some vs)
    then have "0 \<le> line vs" using r by (simp add: buffer_inv_def)
    from buffer_inv_visualDelete[OF this cr s] Some show ?thesis
      by (simp add: buffer_inv_def)
  qed
  have y: "buffer_inv ((case visualStart r of None \<Rightarrow> s | Some vs \<Rightarrow> visualYank vs r s)
                        \<lparr>mode := Normal, visualStart := None\<rparr>)"
    using s' by (cases "visualStart r") (simp_all add: visualYank_def showStatus_def Let_def)
  show ?thesis
    unfolding handleVisualModeKey_def
    using d y
    by (intro buffer_inv_if)
       (simp_all add: s s' buffer_inv_moveLeft buffer_inv_moveRight buffer_inv_moveUp
          buffer_inv_moveDown)
qed

lemma buffer_inv_executeVimCommand:
  assumes r: "buffer_inv r" and s: "buffer_inv s"
  shows "buffer_inv (executeVimCommand eager r s cmd)"
proof -
  have cr: "0 \<le> line (cursor r)" using r by (simp add: buffer_inv_def)
  have s': "lines s \<noteq> []" using s by (simp add: buffer_inv_def)
  have f: "lines s \<noteq> []" "0 \<le> line (cursor s)"
          "case visualStart s of None \<Rightarrow> True | Some vs \<Rightarrow> 0 \<le> line vs"
    using s by (simp_all add: buffer_inv_def)
  show ?thesis
    unfolding executeVimCommand_def Let_def
    apply (intro buffer_inv_if buffer_inv_case_option)
    apply (simp_all add: s split del: if_split)
    apply (auto simp: buffer_inv_def f js_set_not_Nil dest: searchForward_line[OF cr])
    done
qed

lemma buffer_inv_handleEvent: "buffer_inv s \<Longrightarrow> buffer_inv (handleEvent s ev)"
  by (cases ev)
     (simp_all add: handleKeyDown_def handleCommandSubmit_def buffer_inv_handleNormalModeKey
        buffer_inv_handleInsertModeKey buffer_inv_handleReplaceModeKey
        buffer_inv_handleVisualModeKey buffer_inv_executeVimCommand split: VimMode.split)

lemma buffer_inv_run: "buffer_inv s \<Longrightarrow> buffer_inv (run s evs)"
  unfolding run_def by (induction evs arbitrary: s) (simp_all add: buffer_inv_handleEvent)

lemma buffer_inv_initialState: "buffer_inv (initialState fname c)"
  by (simp add: buffer_inv_def initialState_def)

text \<open>
  Claim C1. Whatever the initial content and whatever the events (keys in any mode, command
  lines), the buffer afterwards has at least one line. \<open>deleteLine\<close>, for any count, and
  the deletion of a selection, for any anchor, leave at least one line from any state at
  all: both add an empty line to a buffer they have emptied.
\<close>

theorem buffer_never_empty:
  "1 \<le> length (lines (run (initialState fname content) evs))
   \<and> 1 \<le> length (lines (deleteLine count r s))
   \<and> 1 \<le> length (lines (visualDelete vs r s))"
proof -
  have "buffer_inv (run (initialState fname content) evs)"
    by (rule buffer_inv_run[OF buffer_inv_initialState])
  then have "lines (run (initialState fname content) evs) \<noteq> []"
    by (simp add: buffer_inv_def)
  moreover have "lines (deleteLine count r s) \<noteq> []"
    by (simp add: deleteLine_def Let_def showStatus_def)
  moreover have "lines (visualDelete vs r s) \<noteq> []"
    by (simp add: visualDelete_def Let_def showStatus_def)
  ultimately show ?thesis
    by (simp add: Suc_le_eq)
qed

section \<open>The cursor line stays next to the buffer\<close>

lemma length_js_set: "0 \<le> i \<Longrightarrow> length (js_set xs i v) = max (length xs) (Suc (nat i))"
  by (auto simp: js_set_def)

lemma length_js_set_ge: "length xs \<le> length (js_set xs i v)"
  by (auto simp: js_set_def)

lemma length_js_splice_ge:
  "0 \<le> a \<Longrightarrow> min (nat a) (length xs) + length items \<le> length (js_splice a d items xs)"
  by (simp add: js_splice_def rel_index_def Let_def)

lemma length_js_splice_ge_int:
  assumes "0 \<le> a" and "a \<le> int (length xs)"
  shows "a + int (length items) \<le> int (length (js_splice a d items xs))"
proof -
  have "nat a \<le> length xs" using assms by linarith
  then have "min (nat a) (length xs) = nat a" by simp
  with length_js_splice_ge[OF assms(1), of xs items d]
  have "nat a + length items \<le> length (js_splice a d items xs)" by simp
  then show ?thesis using assms(1) by linarith
qed

lemma length_js_set_gt: "0 \<le> i \<Longrightarrow> i + 1 \<le> int (length (js_set xs i v))"
  by (simp add: length_js_set)

lemma funpow_invariant:
  assumes "\<And>t. P t \<Longrightarrow> P (f t)" and "P s"
  shows "P ((f ^^ k) s)"
  by (induction k) (simp_all add: assms)

lemma clampCursor_line_le: "lns \<noteq> [] \<Longrightarrow> line (clampCursor m pos lns) \<le> int (length lns) - 1"
  by (cases lns) (simp_all add: clampCursor_def Let_def)

lemma clampCursor_line_le': "line (clampCursor m pos lns) \<le> int (length lns)"
  by (cases lns) (simp_all add: clampCursor_def Let_def)


subsection \<open>Motions keep the lines\<close>

lemma move_inv_moveLeft: "move_inv r t \<Longrightarrow> move_inv r (moveLeft r t)"
  by (simp add: move_inv_def no_gap_def moveLeft_def clampCursor_line_le')

lemma move_inv_moveRight: "move_inv r t \<Longrightarrow> move_inv r (moveRight r t)"
  by (simp add: move_inv_def no_gap_def moveRight_def clampCursor_line_le')

lemma move_inv_moveUp: "move_inv r t \<Longrightarrow> move_inv r (moveUp r t)"
  by (simp add: move_inv_def no_gap_def moveUp_def clampCursor_line_le')

lemma move_inv_moveDown: "move_inv r t \<Longrightarrow> move_inv r (moveDown r t)"
  by (simp add: move_inv_def no_gap_def moveDown_def clampCursor_line_le')

lemma move_inv_moveWordForward: "move_inv r t \<Longrightarrow> move_inv r (moveWordForward r t)"
  by (auto simp: move_inv_def no_gap_def moveWordForward_def Let_def split: option.splits)

lemma move_inv_moveWordBackward: "move_inv r t \<Longrightarrow> move_inv r (moveWordBackward r t)"
  by (auto simp: move_inv_def no_gap_def moveWordBackward_def Let_def split: option.splits)

lemma no_gap_move_loop:
  assumes "\<And>t. move_inv r t \<Longrightarrow> move_inv r (f t)" and "no_gap r"
  shows "no_gap (repeat n f r)"
proof -
  have "move_inv r r" using assms(2) by (simp add: move_inv_def)
  then have "move_inv r ((f ^^ nat n) r)"
    using funpow_invariant[of "move_inv r" f r "nat n"] assms(1) by blast
  then show ?thesis by (simp add: repeat_def move_inv_def)
qed

subsection \<open>Loops of edits\<close>

lemma edit_inv_no_gap: "edit_inv r t \<Longrightarrow> no_gap t"
  by (simp add: edit_inv_def no_gap_def)

lemma edit_inv_deleteChar: "edit_inv r t \<Longrightarrow> edit_inv r (deleteChar r t)"
proof -
  assume e: "edit_inv r t"
  let ?cl = "line (cursor r)"
  have c: "0 \<le> ?cl" "?cl \<le> int (length (lines t))" "line (cursor t) \<le> ?cl"
    using e by (simp_all add: edit_inv_def)
  have a: "?cl \<le> int (length (js_set (lines t) ?cl v))" for v
    using c length_js_set_ge[of "lines t" ?cl v] by linarith
  have b: "?cl \<le> int (length (js_splice (?cl + 1) 1 [] (js_set (lines t) ?cl v)))"
    if "?cl < int (length (lines t)) - 1" for v
  proof -
    have "min (nat (?cl + 1)) (length (js_set (lines t) ?cl v)) + length ([]::string list)
          \<le> length (js_splice (?cl + 1) 1 [] (js_set (lines t) ?cl v))"
      using c by (intro length_js_splice_ge) simp
    moreover have "nat (?cl + 1) \<le> length (js_set (lines t) ?cl v)"
      using c that length_js_set_ge[of "lines t" ?cl v] by linarith
    ultimately show ?thesis using c by simp
  qed
  show ?thesis
    using c a b by (simp add: edit_inv_def deleteChar_def Let_def)
qed

lemma edit_inv_backspace: "edit_inv r t \<Longrightarrow> edit_inv r (backspace r t)"
proof -
  assume e: "edit_inv r t"
  let ?cl = "line (cursor r)"
  have c: "0 \<le> ?cl" "?cl \<le> int (length (lines t))" "line (cursor t) \<le> ?cl"
    using e by (simp_all add: edit_inv_def)
  have a: "?cl \<le> int (length (js_set (lines t) ?cl v))" for v
    using c length_js_set_ge[of "lines t" ?cl v] by linarith
  have b: "?cl \<le> int (length (js_splice ?cl 1 [] (js_set (lines t) (?cl - 1) v)))" for v
  proof -
    have "min (nat ?cl) (length (js_set (lines t) (?cl - 1) v)) + length ([]::string list)
          \<le> length (js_splice ?cl 1 [] (js_set (lines t) (?cl - 1) v))"
      using c by (intro length_js_splice_ge) simp
    moreover have "nat ?cl \<le> length (js_set (lines t) (?cl - 1) v)"
      using c length_js_set_ge[of "lines t" "?cl - 1" v] by linarith
    ultimately show ?thesis using c by simp
  qed
  show ?thesis
    using c a b by (simp add: edit_inv_def backspace_def Let_def)
qed

lemma no_gap_edit_loop:
  assumes "\<And>t. edit_inv r t \<Longrightarrow> edit_inv r (f t)" and "buffer_inv r" and "no_gap r"
  shows "no_gap (repeat n f r)"
proof -
  have "edit_inv r r" using assms(2,3) by (simp add: edit_inv_def buffer_inv_def no_gap_def)
  then have "edit_inv r ((f ^^ nat n) r)"
    using funpow_invariant[of "edit_inv r" f r "nat n"] assms(1) by blast
  then show ?thesis by (simp add: repeat_def edit_inv_no_gap)
qed

subsection \<open>Single commands\<close>

lemma no_gap_irrelevant [simp]:
  "no_gap (s\<lparr>numberBuffer := nb\<rparr>) = no_gap s"
  "no_gap (s\<lparr>lastCommand := lc\<rparr>) = no_gap s"
  "no_gap (s\<lparr>mode := m\<rparr>) = no_gap s"
  "no_gap (s\<lparr>commandBuffer := cb\<rparr>) = no_gap s"
  "no_gap (s\<lparr>statusMessage := sm\<rparr>) = no_gap s"
  "no_gap (s\<lparr>modified := md\<rparr>) = no_gap s"
  "no_gap (s\<lparr>yankBuffer := yb\<rparr>) = no_gap s"
  "no_gap (s\<lparr>searchPattern := sp\<rparr>) = no_gap s"
  "no_gap (s\<lparr>calls := cs\<rparr>) = no_gap s"
  "no_gap (s\<lparr>visualStart := v\<rparr>) = no_gap s"
  by (simp_all add: no_gap_def)

lemma no_gap_resetNumber [simp]: "no_gap (resetNumber s) = no_gap s"
  by (simp add: resetNumber_def)

lemma no_gap_showStatus [simp]: "no_gap (showStatus msg s) = no_gap s"
  by (simp add: showStatus_def)

lemma no_gap_col: "no_gap s \<Longrightarrow> no_gap (s\<lparr>cursor := (cursor s)\<lparr>col := c\<rparr>\<rparr>)"
  by (simp add: no_gap_def)

lemma no_gap_clamped:
  "buffer_inv s \<Longrightarrow> no_gap (s\<lparr>cursor := \<lparr>line = max 0 (min a (int (length (lines s)) - 1)), col = c\<rparr>\<rparr>)"
  by (cases "lines s") (simp_all add: no_gap_def buffer_inv_def)

lemma no_gap_moveToLineStart: "no_gap s \<Longrightarrow> no_gap (moveToLineStart s s)"
  by (simp add: moveToLineStart_def no_gap_col)

lemma no_gap_moveToLineEnd: "no_gap s \<Longrightarrow> no_gap (moveToLineEnd s s)"
  by (simp add: moveToLineEnd_def no_gap_col)

lemma no_gap_moveToFirstNonWhitespace: "no_gap s \<Longrightarrow> no_gap (moveToFirstNonWhitespace s s)"
  by (simp add: moveToFirstNonWhitespace_def Let_def no_gap_col)

lemma no_gap_moveToTop: "no_gap (moveToTop s s)"
  by (simp add: moveToTop_def no_gap_def)

lemma no_gap_moveToBottom: "no_gap (moveToBottom s s)"
  by (simp add: moveToBottom_def no_gap_def)

lemma no_gap_move:
  assumes "\<And>t. move_inv s t \<Longrightarrow> move_inv s (f t)" and "no_gap s"
  shows "no_gap (f s)"
  using assms(1)[of s] assms(2) by (simp add: move_inv_def)

lemma no_gap_edit:
  assumes "\<And>t. edit_inv s t \<Longrightarrow> edit_inv s (f t)" and "buffer_inv s" and "no_gap s"
  shows "no_gap (f s)"
  using assms(1)[of s] assms(2,3) by (simp add: edit_inv_def buffer_inv_def no_gap_def)

lemma no_gap_insertChar: "buffer_inv s \<Longrightarrow> no_gap s \<Longrightarrow> no_gap (insertChar ch s s)"
  using length_js_set_ge[of "lines s" "line (cursor s)"]
  by (simp add: insertChar_def Let_def no_gap_def order_trans[OF _ iffD2[OF of_nat_le_iff]])


lemma no_gap_set_line:
  "no_gap s \<Longrightarrow> no_gap (s\<lparr>lines := js_set (lines s) i v\<rparr>)"
  using length_js_set_ge[of "lines s" i v] by (simp add: no_gap_def)

lemma no_gap_insertNewLine:
  assumes "buffer_inv s"
  shows "no_gap (insertNewLine s s)"
proof -
  let ?cl = "line (cursor s)"
  have c: "0 \<le> ?cl" using assms by (simp add: buffer_inv_def)
  have h: "?cl + 1 + int (length [w])
        \<le> int (length (js_splice (?cl + 1) 0 [w] (js_set (lines s) ?cl v)))" for v w :: string
    using c length_js_set_gt[of ?cl "lines s" v] by (intro length_js_splice_ge_int) simp_all
  have "?cl + 1 \<le> int (length (js_splice (?cl + 1) 0 [w] (js_set (lines s) ?cl v)))"
    for v w :: string
    using h[of w v] by simp
  then show ?thesis by (simp add: insertNewLine_def Let_def no_gap_def)
qed

lemma length_insert_after:
  assumes "0 \<le> a" and "a \<le> int (length xs)" and "items \<noteq> []"
  shows "a + 1 \<le> int (length (js_splice (a + 1) 0 items xs))"
proof (cases "a + 1 \<le> int (length xs)")
  case True
  have "a + 1 + int (length items) \<le> int (length (js_splice (a + 1) 0 items xs))"
    using assms(1) True by (intro length_js_splice_ge_int) simp_all
  then show ?thesis by linarith
next
  case False
  then have a: "nat a = length xs" using assms by linarith
  have "min (nat (a + 1)) (length xs) + length items \<le> length (js_splice (a + 1) 0 items xs)"
    using assms(1) by (intro length_js_splice_ge) simp
  moreover have "min (nat (a + 1)) (length xs) = length xs" using a assms(1) by simp
  moreover have "1 \<le> length items" using assms(3) by (cases items) simp_all
  ultimately have "length xs + 1 \<le> length (js_splice (a + 1) 0 items xs)" by linarith
  then show ?thesis using a assms(1) by linarith
qed

lemma length_insert_before:
  assumes "0 \<le> a" and "a \<le> int (length xs)"
  shows "a \<le> int (length (js_splice a 0 items xs))"
  using length_js_splice_ge_int[OF assms, of items 0] by linarith

lemma no_gap_pasteAfter: "buffer_inv s \<Longrightarrow> no_gap s \<Longrightarrow> no_gap (pasteAfter s s)"
  by (simp add: pasteAfter_def showStatus_def no_gap_def buffer_inv_def length_insert_after)

lemma no_gap_pasteBefore: "buffer_inv s \<Longrightarrow> no_gap s \<Longrightarrow> no_gap (pasteBefore s s)"
  by (simp add: pasteBefore_def showStatus_def no_gap_def buffer_inv_def length_insert_before)

lemma no_gap_openLineBelow: "buffer_inv s \<Longrightarrow> no_gap s \<Longrightarrow> no_gap (openLineBelow s s)"
  by (simp add: openLineBelow_def no_gap_def buffer_inv_def length_insert_after)

lemma no_gap_openLineAbove: "buffer_inv s \<Longrightarrow> no_gap s \<Longrightarrow> no_gap (openLineAbove s s)"
  by (simp add: openLineAbove_def no_gap_def buffer_inv_def length_insert_before)

lemma no_gap_joinLines:
  assumes "buffer_inv s" and "no_gap s"
  shows "no_gap (joinLines s s)"
proof (cases "line (cursor s) \<ge> int (length (lines s)) - 1")
  case True
  then show ?thesis using assms(2) by (simp add: joinLines_def)
next
  case False
  let ?cl = "line (cursor s)"
  have c: "0 \<le> ?cl" using assms(1) by (simp add: buffer_inv_def)
  have h: "?cl + 1 + int (length ([]::string list))
        \<le> int (length (js_splice (?cl + 1) 1 [] (js_set (lines s) ?cl v)))" for v
    using c length_js_set_gt[of ?cl "lines s" v] by (intro length_js_splice_ge_int) simp_all
  have "?cl \<le> int (length (js_splice (?cl + 1) 1 [] (js_set (lines s) ?cl v)))" for v
    using h[of v] by simp
  then show ?thesis using False by (simp add: joinLines_def Let_def no_gap_def)
qed

lemma no_gap_deleteLine:
  assumes "buffer_inv s" and "no_gap s"
  shows "no_gap (deleteLine n s s)"
proof -
  let ?cl = "line (cursor s)" and ?len = "length (lines s)"
  let ?new = "js_splice ?cl n [] (lines s)"
  have c: "0 \<le> ?cl" "?cl \<le> int ?len" "0 < ?len"
    using assms by (simp_all add: buffer_inv_def no_gap_def)
  have l: "min (nat ?cl) ?len \<le> length ?new"
    using length_js_splice_ge[of ?cl "lines s" "[]" n] c by simp
  have k: "line (clampCursor m (cursor s) (lines s)) \<le> int (length ?new)"
    if "?new \<noteq> []" for m
  proof -
    have "line (clampCursor m (cursor s) (lines s)) \<le> ?cl"
      using c by (simp add: clampCursor_def Let_def)
    then show ?thesis using l c by linarith
  qed
  have z: "line (clampCursor m pos [[]]) = 0" for m pos
    by (simp add: clampCursor_def Let_def)
  have e: "line (clampCursor m (cursor s) (lines s)) \<le> 1" if "?new = []" for m
  proof -
    have "nat ?cl = 0" using l c that by simp
    then show ?thesis using c by (simp add: clampCursor_def Let_def)
  qed
  show ?thesis
    using k e by (simp add: deleteLine_def Let_def no_gap_def showStatus_def z)
qed

lemma no_gap_visualDelete:
  assumes "buffer_inv s" and "no_gap s" and "0 \<le> line vs"
  shows "no_gap (visualDelete vs s s)"
proof -
  let ?st = "min (line vs) (line (cursor s))"
  let ?new = "js_splice ?st (max (line vs) (line (cursor s)) - ?st + 1) [] (lines s)"
  have c: "0 \<le> ?st" "?st \<le> int (length (lines s))"
    using assms by (simp_all add: buffer_inv_def no_gap_def)
  have l: "min (nat ?st) (length (lines s)) \<le> length ?new"
    using length_js_splice_ge[of ?st "lines s" "[]"] c(1) by simp
  have k: "?st \<le> int (length ?new)" using l c by linarith
  have e: "?st \<le> 1" if "?new = []" using k that by simp
  show ?thesis
    using k e by (simp add: visualDelete_def Let_def no_gap_def showStatus_def)
qed

lemma scanForward_line_lt:
  "scanForward pat ls i from = Some pos \<Longrightarrow> line pos < i + int (length ls)"
  by (induction pat ls i "from" rule: scanForward.induct) (auto split: if_splits)

lemma scanBackward_line_le: "scanBackward pat f n = Some pos \<Longrightarrow> line pos \<le> int n"
  by (induction pat f n rule: scanBackward.induct) (auto split: if_splits)

lemma searchForward_line_le:
  assumes "buffer_inv s" and "no_gap s" and "searchForward s pat = Some pos"
  shows "line pos \<le> int (length (lines s))"
proof -
  have c: "0 \<le> line (cursor s)" "line (cursor s) \<le> int (length (lines s))"
    using assms by (simp_all add: buffer_inv_def no_gap_def)
  from scanForward_line_lt[OF assms(3)[unfolded searchForward_def]] c
  show ?thesis by simp
qed

lemma searchBackward_line_le:
  assumes "buffer_inv s" and "no_gap s" and "searchBackward s pat = Some pos"
  shows "line pos \<le> int (length (lines s))"
proof -
  have c: "0 \<le> line (cursor s)" "line (cursor s) \<le> int (length (lines s))"
    using assms by (simp_all add: buffer_inv_def no_gap_def)
  from scanBackward_line_le[OF assms(3)[unfolded searchBackward_def]] c
  show ?thesis by simp
qed

lemma no_gap_changeWholeLine: "no_gap s \<Longrightarrow> no_gap (changeWholeLine s s)"
  using length_js_set_ge[of "lines s" "line (cursor s)" "[]"]
  by (simp add: changeWholeLine_def no_gap_def)

lemma no_gap_cutToLineEnd: "no_gap s \<Longrightarrow> no_gap (cutToLineEnd s s)"
  by (simp add: cutToLineEnd_def no_gap_set_line)

lemma no_gap_replaceChar: "no_gap s \<Longrightarrow> no_gap (replaceChar key s s)"
  by (simp add: replaceChar_def Let_def no_gap_set_line)

lemma no_gap_deleteChar: "buffer_inv s \<Longrightarrow> no_gap s \<Longrightarrow> no_gap (deleteChar s s)"
  by (rule no_gap_edit[of s "deleteChar s"]) (simp_all add: edit_inv_deleteChar)

lemma no_gap_backspace: "buffer_inv s \<Longrightarrow> no_gap s \<Longrightarrow> no_gap (backspace s s)"
  by (rule no_gap_edit[of s "backspace s"]) (simp_all add: edit_inv_backspace)

lemma no_gap_moveLeft: "no_gap s \<Longrightarrow> no_gap (moveLeft s s)"
  by (rule no_gap_move[of s "moveLeft s"]) (simp_all add: move_inv_moveLeft)

lemma no_gap_moveRight: "no_gap s \<Longrightarrow> no_gap (moveRight s s)"
  by (rule no_gap_move[of s "moveRight s"]) (simp_all add: move_inv_moveRight)

lemma no_gap_moveUp: "no_gap s \<Longrightarrow> no_gap (moveUp s s)"
  by (rule no_gap_move[of s "moveUp s"]) (simp_all add: move_inv_moveUp)

lemma no_gap_moveDown: "no_gap s \<Longrightarrow> no_gap (moveDown s s)"
  by (rule no_gap_move[of s "moveDown s"]) (simp_all add: move_inv_moveDown)

lemma no_gap_move_loops:
  assumes "no_gap s"
  shows "no_gap (repeat n (moveLeft s) s)" "no_gap (repeat n (moveRight s) s)"
    "no_gap (repeat n (moveUp s) s)" "no_gap (repeat n (moveDown s) s)"
    "no_gap (repeat n (moveWordForward s) s)" "no_gap (repeat n (moveWordBackward s) s)"
  by (rule no_gap_move_loop[OF _ assms];
      simp add: move_inv_moveLeft move_inv_moveRight move_inv_moveUp move_inv_moveDown
        move_inv_moveWordForward move_inv_moveWordBackward)+

lemma no_gap_edit_loops:
  assumes "buffer_inv s" and "no_gap s"
  shows "no_gap (repeat n (deleteChar s) s)" "no_gap (repeat n (backspace s) s)"
  by (rule no_gap_edit_loop[OF _ assms]; simp add: edit_inv_deleteChar edit_inv_backspace)+

subsection \<open>Handlers and events\<close>

lemma no_gap_if: "no_gap a \<Longrightarrow> no_gap b \<Longrightarrow> no_gap (if c then a else b)"
  by simp

lemma no_gap_case_option:
  "no_gap a \<Longrightarrow> (\<And>x. v = Some x \<Longrightarrow> no_gap (f x))
   \<Longrightarrow> no_gap (case v of None \<Rightarrow> a | Some x \<Rightarrow> f x)"
  by (cases v) simp_all

lemma no_gap_handleNormalModeKey:
  assumes b: "buffer_inv s" and g: "no_gap s"
  shows "no_gap (handleNormalModeKey s s key)"
proof -
  note ops = no_gap_move_loops[OF g] no_gap_edit_loops[OF b g] no_gap_deleteChar[OF b]
    no_gap_moveToLineStart no_gap_moveToLineEnd no_gap_moveToFirstNonWhitespace
    no_gap_moveToTop no_gap_moveToBottom no_gap_clamped[OF b] no_gap_col
    no_gap_openLineBelow[OF b] no_gap_openLineAbove[OF b] no_gap_deleteLine[OF b]
    no_gap_cutToLineEnd no_gap_pasteAfter[OF b] no_gap_pasteBefore[OF b]
    no_gap_joinLines[OF b] no_gap_changeWholeLine no_gap_replaceChar
  have n: "no_gap (s\<lparr>cursor := pos\<rparr>)"
    if "searchForward s (searchPattern s) = Some pos" for pos
    using searchForward_line_le[OF b g that] by (simp add: no_gap_def)
  have k: "no_gap (s\<lparr>cursor := pos\<rparr>)"
    if "searchBackward s (searchPattern s) = Some pos" for pos
    using searchBackward_line_le[OF b g that] by (simp add: no_gap_def)
  show ?thesis
    unfolding handleNormalModeKey_def Let_def undoLastChange_def yankLine_def
    apply (intro no_gap_if)
    apply (simp_all add: g ops split del: if_split)
    apply (safe intro!: no_gap_if no_gap_case_option)
    apply (simp_all add: g ops n k)
    done
qed

lemma no_gap_handleInsertModeKey:
  assumes b: "buffer_inv s" and g: "no_gap s"
  shows "no_gap (handleInsertModeKey s s key c m)"
proof -
  have e: "no_gap (s\<lparr>mode := Normal, cursor := clampCursor m' pos (lines s)\<rparr>)" for m' pos
    by (simp add: no_gap_def clampCursor_line_le')
  show ?thesis
    unfolding handleInsertModeKey_def
    by (intro no_gap_if)
       (simp_all add: g e no_gap_backspace[OF b] no_gap_deleteChar[OF b]
          no_gap_insertNewLine[OF b] no_gap_insertChar[OF b] no_gap_moveLeft
          no_gap_moveUp no_gap_moveDown no_gap_col)
qed

lemma no_gap_handleReplaceModeKey:
  assumes g: "no_gap s"
  shows "no_gap (handleReplaceModeKey s s key c m)"
proof -
  have "no_gap (s\<lparr>lines := js_set (lines s) (line (cursor s)) v,
                  cursor := (cursor s)\<lparr>col := col (cursor s) + 1\<rparr>, modified := True\<rparr>)" for v
    using g length_js_set_ge[of "lines s" "line (cursor s)" v] by (simp add: no_gap_def)
  then show ?thesis
    unfolding handleReplaceModeKey_def Let_def
    using g by (intro no_gap_if) simp_all
qed

lemma no_gap_handleVisualModeKey:
  assumes b: "buffer_inv s" and g: "no_gap s"
  shows "no_gap (handleVisualModeKey s s key)"
proof -
  have d: "no_gap ((case visualStart s of None \<Rightarrow> s | Some vs \<Rightarrow> visualDelete vs s s)
                     \<lparr>mode := Normal, visualStart := None\<rparr>)"
  proof (cases "visualStart s")
    case None
    then show ?thesis using g by simp
  next
    case (Some vs)
    then have "0 \<le> line vs" using b by (simp add: buffer_inv_def)
    from no_gap_visualDelete[OF b g this] Some show ?thesis by simp
  qed
  have y: "no_gap ((case visualStart s of None \<Rightarrow> s | Some vs \<Rightarrow> visualYank vs s s)
                     \<lparr>mode := Normal, visualStart := None\<rparr>)"
    using g by (cases "visualStart s") (simp_all add: visualYank_def Let_def)
  show ?thesis
    unfolding handleVisualModeKey_def
    using d y
    by (intro no_gap_if)
       (simp_all add: g no_gap_moveLeft no_gap_moveRight no_gap_moveUp no_gap_moveDown)
qed

lemma no_gap_executeVimCommand:
  assumes b: "buffer_inv s" and g: "no_gap s"
  shows "no_gap (executeVimCommand eager s s cmd)"
proof -
  have f: "lines s \<noteq> []" "0 \<le> line (cursor s)" "line (cursor s) \<le> int (length (lines s))"
    using b g by (simp_all add: buffer_inv_def no_gap_def)
  have j: "max 0 (min a (int (length (lines s)) - 1)) \<le> int (length (lines s))" for a
    using f by (cases "lines s") simp_all
  have l: "line (cursor s) \<le> int (length (js_set (lines s) i v))" for i v
    using f length_js_set_ge[of "lines s" i v] by linarith
  show ?thesis
    unfolding executeVimCommand_def Let_def
    apply (intro no_gap_if no_gap_case_option)
    apply (simp_all add: g split del: if_split)
    apply (auto simp: no_gap_def f j l dest: searchForward_line_le[OF b g])
    done
qed

lemma no_gap_handleEvent: "buffer_inv s \<Longrightarrow> no_gap s \<Longrightarrow> no_gap (handleEvent s ev)"
  by (cases ev)
     (simp_all add: handleKeyDown_def handleCommandSubmit_def no_gap_handleNormalModeKey
        no_gap_handleInsertModeKey no_gap_handleReplaceModeKey
        no_gap_handleVisualModeKey no_gap_executeVimCommand split: VimMode.split)

lemma no_gap_run: "buffer_inv s \<Longrightarrow> no_gap s \<Longrightarrow> no_gap (run s evs)"
  unfolding run_def
  by (induction evs arbitrary: s) (simp_all add: buffer_inv_handleEvent no_gap_handleEvent)

text \<open>
  In every state the editor reaches the cursor line is at least \<open>0\<close> and at most the
  number of lines, so an assignment to the cursor line, or to the line before it, never
  skips an element of the buffer.
\<close>

lemma cursor_line_never_skips:
  "0 \<le> line (cursor (run (initialState fname content) evs))
   \<and> line (cursor (run (initialState fname content) evs))
       \<le> int (length (lines (run (initialState fname content) evs)))"
proof -
  have "buffer_inv (initialState fname content)" by (rule buffer_inv_initialState)
  moreover have "no_gap (initialState fname content)"
    by (simp add: no_gap_def initialState_def)
  ultimately have "buffer_inv (run (initialState fname content) evs)"
    and "no_gap (run (initialState fname content) evs)"
    by (simp_all add: buffer_inv_run no_gap_run)
  then show ?thesis by (simp add: buffer_inv_def no_gap_def)
qed

end
